theory Spec2Isabelle
  imports Main "HOL-Library.Sublist"
begin

section \<open>Values of the host language\<close>

text \<open>
  The service (\<^verbatim>\<open>src/services/DatabaseService.ts\<close>) is a TypeScript class. What its
  methods read back from \<^verbatim>\<open>JSON.parse\<close> is a dynamically typed value, so the model has a
  datatype of JSON values. Numbers are integers: every number the service writes is a
  row id or a count of milliseconds since the epoch, which the host represents exactly.
  An object is the list of its members in order; a property read takes the first member
  with the key. A value that may be \<^verbatim>\<open>undefined\<close> is a \<open>json option\<close>, \<open>None\<close> being
  \<^verbatim>\<open>undefined\<close>.

  A \<open>string\<close> stands for a well-formed text by its UTF-8 bytes and for a binary string
  (the argument of \<^verbatim>\<open>btoa\<close>, the result of \<^verbatim>\<open>atob\<close>) by its bytes.
\<close>

datatype json =
    JNull
  | JBool bool
  | JNum int
  | JStr string
  | JArr "json list"
  | JObj "(string \<times> json) list"

text \<open>What a call can throw. A throw is the left injection of a sum.\<close>

datatype exn =
    SyntaxError
  | TypeError
  | URIError
  | InvalidCharacterError
  | Error string

definition andThen :: "exn + 'a \<Rightarrow> ('a \<Rightarrow> exn + 'b) \<Rightarrow> exn + 'b" where
  "andThen m f = (case m of Inl e \<Rightarrow> Inl e | Inr x \<Rightarrow> f x)"

text \<open>
  The platform the service runs on: the functions of the host and of the Expo modules that
  the service calls and does not define. They are parameters of the model, and a theorem
  that needs a property of one of them states it.
  \<^item> \<open>JSON_parse\<close>: \<^verbatim>\<open>JSON.parse\<close>, \<open>None\<close> for a SyntaxError;
  \<^item> \<open>JSON_stringify\<close>: \<^verbatim>\<open>JSON.stringify\<close>;
  \<^item> \<open>digestSHA256\<close>: \<^verbatim>\<open>Crypto.digestStringAsync(SHA256, _)\<close>;
  \<^item> \<open>btoa\<close>, \<open>atob\<close>: the base64 functions, \<open>None\<close> for an InvalidCharacterError;
  \<^item> \<open>utf8_encode\<close>: \<^verbatim>\<open>unescape(encodeURIComponent(_))\<close>, and \<open>utf8_decode\<close>:
    \<^verbatim>\<open>decodeURIComponent(escape(_))\<close>, \<open>None\<close> for a URIError;
  \<^item> \<open>ToNumber\<close>, \<open>ToString\<close>: the coercions of the language where the service
    applies an arithmetic or a string operation to a value of another type (a string, an
    array or an object to a number, with \<open>None\<close> for NaN; a non-string to a string).
\<close>

record platform =
  JSON_parse :: "string \<Rightarrow> json option"
  JSON_stringify :: "json \<Rightarrow> string"
  digestSHA256 :: "string \<Rightarrow> string"
  btoa :: "string \<Rightarrow> string option"
  atob :: "string \<Rightarrow> string option"
  utf8_encode :: "string \<Rightarrow> string option"
  utf8_decode :: "string \<Rightarrow> string option"
  ToNumber :: "json \<Rightarrow> exn + int option"
  ToString :: "json \<Rightarrow> exn + string"

text \<open>
  A property read \<^verbatim>\<open>v.k\<close>, for the keys the service reads (none of them is a built-in
  property of a string, an array, a number or a boolean): a TypeError on \<^verbatim>\<open>null\<close>, the
  member of an object, \<^verbatim>\<open>undefined\<close> otherwise.
\<close>

fun get_prop :: "json \<Rightarrow> string \<Rightarrow> exn + json option" where
  "get_prop JNull k = Inl TypeError"
| "get_prop (JObj kvs) k = Inr (map_of kvs k)"
| "get_prop v k = Inr None"

text \<open>Truthiness: what \<^verbatim>\<open>!v\<close> and \<^verbatim>\<open>v && _\<close> test.\<close>

fun truthy :: "json option \<Rightarrow> bool" where
  "truthy None = False"
| "truthy (Some JNull) = False"
| "truthy (Some (JBool b)) = b"
| "truthy (Some (JNum n)) = (n \<noteq> 0)"
| "truthy (Some (JStr s)) = (s \<noteq> [])"
| "truthy (Some (JArr xs)) = True"
| "truthy (Some (JObj kvs)) = True"

text \<open>
  The number a value stands for in \<^verbatim>\<open>a - v\<close> and \<^verbatim>\<open>a > v\<close>; \<open>None\<close> is NaN.
\<close>

fun to_number :: "platform \<Rightarrow> json option \<Rightarrow> exn + int option" where
  "to_number P None = Inr None"
| "to_number P (Some (JNum n)) = Inr (Some n)"
| "to_number P (Some JNull) = Inr (Some 0)"
| "to_number P (Some (JBool b)) = Inr (Some (if b then 1 else 0))"
| "to_number P (Some v) = ToNumber P v"

text \<open>The string a value stands for in \<^verbatim>\<open>v + 'text'\<close> and as the argument of \<^verbatim>\<open>JSON.parse\<close>.\<close>

fun to_string :: "platform \<Rightarrow> json option \<Rightarrow> exn + string" where
  "to_string P None = Inr ''undefined''"
| "to_string P (Some (JStr s)) = Inr s"
| "to_string P (Some JNull) = Inr ''null''"
| "to_string P (Some (JBool b)) = Inr (if b then ''true'' else ''false'')"
| "to_string P (Some v) = ToString P v"

text \<open>\<^verbatim>\<open>a - b > c\<close> and \<^verbatim>\<open>a > b\<close> with \<open>b\<close> coerced: false when \<open>b\<close> is NaN.\<close>

definition minus_gt :: "int \<Rightarrow> int option \<Rightarrow> int \<Rightarrow> bool" where
  "minus_gt a b c = (case b of None \<Rightarrow> False | Some n \<Rightarrow> a - n > c)"

definition gt_num :: "int \<Rightarrow> int option \<Rightarrow> bool" where
  "gt_num a b = (case b of None \<Rightarrow> False | Some n \<Rightarrow> a > n)"

text \<open>\<^verbatim>\<open>n.toString()\<close> of an integer: its decimal digits, with a sign when negative.\<close>

definition digit_char :: "int \<Rightarrow> char" where
  "digit_char d = ''0123456789'' ! nat d"

function digits :: "int \<Rightarrow> string" where
  "digits n =
     (if n < 10 then [digit_char n]
      else digits (n div 10) @ [digit_char (n mod 10)])"
  by pat_completeness auto
termination
  by (relation "measure nat") auto

definition number_toString :: "int \<Rightarrow> string" where
  "number_toString n = (if n < 0 then CHR ''-'' # digits (- n) else digits n)"

text \<open>
  \<^verbatim>\<open>s.split(sep)\<close> for a separator that is not empty: the pieces of \<open>s\<close> between the
  occurrences of \<open>sep\<close>, found from the left. The second argument collects, reversed,
  the piece being read.
\<close>

function split_from :: "string \<Rightarrow> string \<Rightarrow> string \<Rightarrow> string list" where
  "split_from sep acc [] = [rev acc]"
| "split_from [] acc (c # cs) = split_from [] (c # acc) cs"
| "split_from (x # xs) acc (c # cs) =
     (if prefix (x # xs) (c # cs)
      then rev acc # split_from (x # xs) [] (drop (length xs) cs)
      else split_from (x # xs) (c # acc) cs)"
  by pat_completeness auto
termination
  by (relation "measure (\<lambda>(sep, acc, s). length s)") auto

definition split :: "string \<Rightarrow> string \<Rightarrow> string list" where
  "split s sep = (if sep = [] then map (\<lambda>c. [c]) s else split_from sep [] s)"

section \<open>The record store\<close>

text \<open>
  \<^verbatim>\<open>interface User\<close>, and \<^verbatim>\<open>Omit<User, 'id'>\<close>, the argument of \<^verbatim>\<open>insertUser\<close>. The field
  \<^verbatim>\<open>allowed_areas\<close> is declared \<^verbatim>\<open>string[]\<close>; what a read returns there is whatever
  \<^verbatim>\<open>JSON.parse\<close> made of the column, so the model keeps a JSON value.
\<close>

record NewUser =
  email :: string
  name :: string
  phone :: string
  access_level :: string
  allowed_areas :: json
  is_active :: bool

record User = NewUser +
  id_user :: int

text \<open>
  A row of the table \<^verbatim>\<open>users\<close> that \<^verbatim>\<open>createTables\<close> declares:
  \<^verbatim>\<open>id INTEGER PRIMARY KEY, email TEXT UNIQUE NOT NULL, name TEXT NOT NULL,
  phone TEXT NOT NULL, access_level TEXT NOT NULL, allowed_areas TEXT NOT NULL,
  is_active INTEGER DEFAULT 1\<close>. The table is the list of its rows in rowid order.
\<close>

record Row =
  col_id :: int
  col_email :: string
  col_name :: string
  col_phone :: string
  col_access_level :: string
  col_allowed_areas :: string
  col_is_active :: int

type_synonym users_table = "Row list"

text \<open>The constraints of the declaration: no two rows share an id or an email.\<close>

definition table_ok :: "users_table \<Rightarrow> bool" where
  "table_ok tbl = (distinct (map col_id tbl) \<and> distinct (map col_email tbl))"

text \<open>The rowid a new row gets: one more than the largest, or 1 in an empty table.\<close>

definition next_rowid :: "users_table \<Rightarrow> int" where
  "next_rowid tbl = (if tbl = [] then 1 else Max (set (map col_id tbl)) + 1)"

text \<open>
  \<^verbatim>\<open>INSERT OR IGNORE INTO users (email, name, phone, access_level, allowed_areas,
  is_active) VALUES (?, ?, ?, ?, ?, ?)\<close>: a row whose email is already in the table
  violates the UNIQUE constraint and is skipped; the table is left as it is.
\<close>

definition insert_or_ignore ::
  "users_table \<Rightarrow> string \<Rightarrow> string \<Rightarrow> string \<Rightarrow> string \<Rightarrow> string \<Rightarrow> int \<Rightarrow> users_table" where
  "insert_or_ignore tbl e n p al ar act =
     (if e \<in> set (map col_email tbl) then tbl
      else tbl @ [\<lparr>col_id = next_rowid tbl, col_email = e, col_name = n, col_phone = p,
                   col_access_level = al, col_allowed_areas = ar, col_is_active = act\<rparr>])"

text \<open>\<^verbatim>\<open>SELECT * FROM users WHERE email = ? AND is_active = 1\<close>, and without the email.\<close>

definition select_by_email_active :: "users_table \<Rightarrow> string \<Rightarrow> Row list" where
  "select_by_email_active tbl e = filter (\<lambda>r. col_email r = e \<and> col_is_active r = 1) tbl"

definition select_active :: "users_table \<Rightarrow> Row list" where
  "select_active tbl = filter (\<lambda>r. col_is_active r = 1) tbl"

text \<open>
  The service holds \<^verbatim>\<open>database: SQLiteDatabase | null\<close>; every method throws
  \<^verbatim>\<open>Error('Database not initialized')\<close> on \<^verbatim>\<open>null\<close>.
\<close>

type_synonym database = "users_table option"

definition insertUser :: "platform \<Rightarrow> database \<Rightarrow> NewUser \<Rightarrow> exn + database" where
  "insertUser P db user =
     (case db of
        None \<Rightarrow> Inl (Error ''Database not initialized'')
      | Some tbl \<Rightarrow>
          Inr (Some (insert_or_ignore tbl (email user) (name user) (phone user)
                 (access_level user) (JSON_stringify P (allowed_areas user))
                 (if is_active user then 1 else 0))))"

text \<open>
  The object both reads build from a row. \<^verbatim>\<open>JSON.parse(row.allowed_areas)\<close> throws on a
  column that is not JSON.
\<close>

definition row_to_user :: "platform \<Rightarrow> Row \<Rightarrow> exn + User" where
  "row_to_user P r =
     (case JSON_parse P (col_allowed_areas r) of
        None \<Rightarrow> Inl SyntaxError
      | Some areas \<Rightarrow>
          Inr \<lparr>email = col_email r, name = col_name r, phone = col_phone r,
               access_level = col_access_level r, allowed_areas = areas,
               is_active = (col_is_active r = 1), id_user = col_id r\<rparr>)"

definition getUserByEmail :: "platform \<Rightarrow> database \<Rightarrow> string \<Rightarrow> exn + User option" where
  "getUserByEmail P db e =
     (case db of
        None \<Rightarrow> Inl (Error ''Database not initialized'')
      | Some tbl \<Rightarrow>
          (case select_by_email_active tbl e of
             [] \<Rightarrow> Inr None
           | r # rs \<Rightarrow> andThen (row_to_user P r) (\<lambda>u. Inr (Some u))))"

text \<open>\<^verbatim>\<open>results.map(row => ...)\<close>: the first row that throws ends the call.\<close>

fun map_rows :: "platform \<Rightarrow> Row list \<Rightarrow> exn + User list" where
  "map_rows P [] = Inr []"
| "map_rows P (r # rs) =
     andThen (row_to_user P r) (\<lambda>u. andThen (map_rows P rs) (\<lambda>us. Inr (u # us)))"

definition getAllUsers :: "platform \<Rightarrow> database \<Rightarrow> exn + User list" where
  "getAllUsers P db =
     (case db of
        None \<Rightarrow> Inl (Error ''Database not initialized'')
      | Some tbl \<Rightarrow> map_rows P (select_active tbl))"

section \<open>Seed obfuscation\<close>

text \<open>
  \<^verbatim>\<open>encryptData\<close>. The 16 bytes that \<^verbatim>\<open>Crypto.getRandomBytesAsync(16)\<close> draws are the
  argument \<open>salt\<close>; \<^verbatim>\<open>String.fromCharCode(...salt)\<close> is the binary string of these bytes.
  The \<^verbatim>\<open>catch\<close> block logs and rethrows, so a throw of the body is a throw of the call.
\<close>

definition fromCharCode :: "nat list \<Rightarrow> string" where
  "fromCharCode bytes = map char_of bytes"

definition substring_0_32 :: "string \<Rightarrow> string" where
  "substring_0_32 key = take 32 key"

definition encryptData :: "platform \<Rightarrow> nat list \<Rightarrow> string \<Rightarrow> exn + string" where
  "encryptData P salt data =
     (case btoa P (fromCharCode salt) of
        None \<Rightarrow> Inl InvalidCharacterError
      | Some saltBase64 \<Rightarrow>
          (let key = digestSHA256 P (''demo_encryption_key_2024'' @ saltBase64);
               dataWithKey = data @ ''::'' @ substring_0_32 key
           in case utf8_encode P dataWithKey of
                None \<Rightarrow> Inl URIError
              | Some bytes \<Rightarrow>
                  (case btoa P bytes of
                     None \<Rightarrow> Inl InvalidCharacterError
                   | Some encryptedData \<Rightarrow> Inr (saltBase64 @ ''::'' @ encryptedData))))"

text \<open>
  \<^verbatim>\<open>decryptData\<close>. \<^verbatim>\<open>const [saltBase64, encrypted] = encryptedData.split('::')\<close> takes the
  first two pieces; with one piece only, \<^verbatim>\<open>encrypted\<close> is \<^verbatim>\<open>undefined\<close>, which \<^verbatim>\<open>atob\<close>
  reads as the text \<^verbatim>\<open>undefined\<close>. \<^verbatim>\<open>const [originalData] = ...split(...)\<close> takes the first
  piece; both separators are not empty, and \<^verbatim>\<open>split\<close> then returns a piece at least. Here
  too the \<^verbatim>\<open>catch\<close> block rethrows.
\<close>

definition decryptData :: "platform \<Rightarrow> string \<Rightarrow> exn + string" where
  "decryptData P encryptedData =
     (let parts = split encryptedData ''::'';
          saltBase64 = hd parts;
          encrypted = (case tl parts of [] \<Rightarrow> ''undefined'' | e # rest \<Rightarrow> e);
          key = digestSHA256 P (''demo_encryption_key_2024'' @ saltBase64)
      in case atob P encrypted of
           None \<Rightarrow> Inl InvalidCharacterError
         | Some bytes \<Rightarrow>
             (case utf8_decode P bytes of
                None \<Rightarrow> Inl URIError
              | Some decryptedWithKey \<Rightarrow>
                  Inr (hd (split decryptedWithKey (''::'' @ substring_0_32 key)))))"

section \<open>Access tokens\<close>

text \<open>
  The fields of \<^verbatim>\<open>expo-device\<close> that \<^verbatim>\<open>getDeviceFingerprint\<close> reads; each may be \<^verbatim>\<open>null\<close>.
  \<^verbatim>\<open>x || 'unknown'\<close> replaces \<^verbatim>\<open>null\<close> and the empty string.
\<close>

record Device =
  osInternalBuildId :: "string option"
  deviceName :: "string option"
  osVersion :: "string option"

definition or_unknown :: "string option \<Rightarrow> string" where
  "or_unknown x = (case x of None \<Rightarrow> ''unknown'' | Some s \<Rightarrow> if s = [] then ''unknown'' else s)"

definition getDeviceFingerprint :: "platform \<Rightarrow> Device \<Rightarrow> string" where
  "getDeviceFingerprint P dev =
     (let deviceId = or_unknown (osInternalBuildId dev);
          devName = or_unknown (deviceName dev);
          osVer = or_unknown (osVersion dev);
          fingerprint = deviceId @ ''-'' @ devName @ ''-'' @ osVer
      in digestSHA256 P fingerprint)"

definition secret :: string where
  "secret = ''event_secret_key_2024''"

text \<open>
  \<^verbatim>\<open>generateSecureQRData\<close>; \<open>timestamp\<close> is what \<^verbatim>\<open>Date.now()\<close> returns. \<open>qrPayload\<close> is the
  object of the same name in the method.
\<close>

definition qrPayload :: "platform \<Rightarrow> Device \<Rightarrow> int \<Rightarrow> User \<Rightarrow> json" where
  "qrPayload P dev timestamp user =
     JObj [(''user_id'', JNum (id_user user)),
           (''email'', JStr (email user)),
           (''name'', JStr (name user)),
           (''access_level'', JStr (access_level user)),
           (''allowed_areas'', allowed_areas user),
           (''timestamp'', JNum timestamp),
           (''expires_at'', JNum (timestamp + (60 * 60 * 1000))),
           (''device_fingerprint'', JStr (getDeviceFingerprint P dev)),
           (''version'', JStr ''2.0'')]"

definition generateSecureQRData :: "platform \<Rightarrow> Device \<Rightarrow> int \<Rightarrow> User \<Rightarrow> string" where
  "generateSecureQRData P dev timestamp user =
     (let payloadString = JSON_stringify P (qrPayload P dev timestamp user);
          signature = digestSHA256 P (payloadString @ secret);
          securePayload = JObj [(''data'', JStr payloadString),
                                (''signature'', JStr signature),
                                (''timestamp'', JNum timestamp)]
      in JSON_stringify P securePayload)"

text \<open>\<^verbatim>\<open>JSON.parse\<close> gives back the value that \<^verbatim>\<open>JSON.stringify\<close> wrote.\<close>

definition roundtrips :: "platform \<Rightarrow> json \<Rightarrow> bool" where
  "roundtrips P v = (JSON_parse P (JSON_stringify P v) = Some v)"

text \<open>
  The result of \<^verbatim>\<open>verifyQRData\<close>: \<^verbatim>\<open>{ valid: boolean; payload?: any; reason?: string }\<close>.
\<close>

record VerifyResult =
  valid :: bool
  payload :: "json option"
  reason :: "string option"

definition rejected :: "string \<Rightarrow> VerifyResult" where
  "rejected r = \<lparr>valid = False, payload = None, reason = Some r\<rparr>"

definition accepted :: "json \<Rightarrow> VerifyResult" where
  "accepted p = \<lparr>valid = True, payload = Some p, reason = None\<rparr>"

text \<open>
  The body of the \<^verbatim>\<open>try\<close> block of \<^verbatim>\<open>verifyQRData\<close>. The method reads the clock twice:
  \<open>now1\<close> is \<^verbatim>\<open>Date.now()\<close> at the check of the envelope's age, \<open>now2\<close> is \<^verbatim>\<open>Date.now()\<close>
  at the check of the payload's expiry, after the digest has been awaited.
\<close>

definition verifyQRData_try :: "platform \<Rightarrow> int \<Rightarrow> int \<Rightarrow> string \<Rightarrow> exn + VerifyResult" where
  "verifyQRData_try P now1 now2 qrData =
     (case JSON_parse P qrData of
        None \<Rightarrow> Inl SyntaxError
      | Some parsed \<Rightarrow>
          andThen (get_prop parsed ''data'') (\<lambda>data.
          andThen (get_prop parsed ''signature'') (\<lambda>signature.
          andThen (get_prop parsed ''timestamp'') (\<lambda>timestamp.
            if \<not> truthy data \<or> \<not> truthy signature \<or> \<not> truthy timestamp
            then Inr (rejected ''Invalid QR format'')
            else
              andThen (to_number P timestamp) (\<lambda>ts.
                if minus_gt now1 ts (24 * 60 * 60 * 1000)
                then Inr (rejected ''QR code expired'')
                else
                  andThen (to_string P data) (\<lambda>dataString.
                    let expectedSignature = digestSHA256 P (dataString @ secret)
                    in if signature \<noteq> Some (JStr expectedSignature)
                       then Inr (rejected ''QR code tampered'')
                       else
                         (case JSON_parse P dataString of
                            None \<Rightarrow> Inl SyntaxError
                          | Some parsedPayload \<Rightarrow>
                              andThen (get_prop parsedPayload ''expires_at'') (\<lambda>expires_at.
                                if truthy expires_at
                                then andThen (to_number P expires_at) (\<lambda>ex.
                                       if gt_num now2 ex
                                       then Inr (rejected ''QR code expired'')
                                       else Inr (accepted parsedPayload))
                                else Inr (accepted parsedPayload)))))))))"

text \<open>The \<^verbatim>\<open>catch\<close> block: every throw of the body becomes a result.\<close>

definition verifyQRData :: "platform \<Rightarrow> int \<Rightarrow> int \<Rightarrow> string \<Rightarrow> VerifyResult" where
  "verifyQRData P now1 now2 qrData =
     (case verifyQRData_try P now1 now2 qrData of
        Inl e \<Rightarrow> rejected ''Invalid QR data''
      | Inr r \<Rightarrow> r)"

section \<open>Remembered credentials\<close>

text \<open>
  The secret store (\<^verbatim>\<open>expo-secure-store\<close>) is a map from keys to values. A write may
  fail: \<open>writable k v\<close> says whether \<^verbatim>\<open>setItemAsync(k, v)\<close> succeeds, and a write that fails
  throws and stores nothing; \<^verbatim>\<open>storeUserCredentials\<close> catches and logs, so the second write
  is not tried after the first has failed. \<open>now\<close> is what \<^verbatim>\<open>Date.now()\<close> returns; the
  parameter \<^verbatim>\<open>rememberMe\<close> is \<^verbatim>\<open>false\<close> when the caller leaves it out. Reads and deletes are
  taken to succeed.
\<close>

type_synonym secure_store = "string \<rightharpoonup> string"

definition setItemAsync ::
  "(string \<Rightarrow> string \<Rightarrow> bool) \<Rightarrow> secure_store \<Rightarrow> string \<Rightarrow> string \<Rightarrow> exn + secure_store" where
  "setItemAsync writable st k v =
     (if writable k v then Inr (st(k \<mapsto> v)) else Inl (Error ''SecureStore''))"

definition storeUserCredentials ::
  "(string \<Rightarrow> string \<Rightarrow> bool) \<Rightarrow> int \<Rightarrow> secure_store \<Rightarrow> string \<Rightarrow> bool \<Rightarrow> secure_store" where
  "storeUserCredentials writable now st email' rememberMe =
     (if rememberMe
      then (case setItemAsync writable st ''rememberedEmail'' email' of
              Inl e \<Rightarrow> st
            | Inr st1 \<Rightarrow>
                (case setItemAsync writable st1 ''lastLoginTime'' (number_toString now) of
                   Inl e \<Rightarrow> st1
                 | Inr st2 \<Rightarrow> st2))
      else st)"

definition getStoredEmail :: "secure_store \<Rightarrow> string option" where
  "getStoredEmail st = st ''rememberedEmail''"

definition clearStoredCredentials :: "secure_store \<Rightarrow> secure_store" where
  "clearStoredCredentials st = (st(''rememberedEmail'' := None))(''lastLoginTime'' := None)"

section \<open>A reference platform\<close>

text \<open>
  An instance of \<open>platform\<close> on which the service can be run on concrete inputs: a codec
  for the JSON texts that have no white space and whose strings escape the quote and the
  backslash only, base64 with padding, the UTF-8 well-formedness check, and a checksum of
  64 hexadecimal digits in the place of SHA-256. Every theorem below is about an arbitrary
  platform; this one serves to evaluate the service at examples.
\<close>

definition quote :: "string \<Rightarrow> string" where
  "quote s =
     CHR 0x22 #
     concat (map (\<lambda>c. if c = CHR 0x22 \<or> c = CHR 0x5C then [CHR 0x5C, c] else [c]) s) @
     [CHR 0x22]"

fun join :: "string \<Rightarrow> string list \<Rightarrow> string" where
  "join sep [] = []"
| "join sep [x] = x"
| "join sep (x # y # ys) = x @ sep @ join sep (y # ys)"

fun stringify :: "json \<Rightarrow> string" where
  "stringify JNull = ''null''"
| "stringify (JBool b) = (if b then ''true'' else ''false'')"
| "stringify (JNum n) = number_toString n"
| "stringify (JStr s) = quote s"
| "stringify (JArr xs) = ''['' @ join '','' (map stringify xs) @ '']''"
| "stringify (JObj kvs) =
     ''{'' @ join '','' (map (\<lambda>kv. quote (fst kv) @ '':'' @ stringify (snd kv)) kvs) @ ''}''"

text \<open>The characters of a string after its opening quote, and the text after its closing one.\<close>

fun parse_chars :: "string \<Rightarrow> (string \<times> string) option" where
  "parse_chars [] = None"
| "parse_chars (c # cs) =
     (if c = CHR 0x22 then Some ([], cs)
      else if c = CHR 0x5C then
        (case cs of
           [] \<Rightarrow> None
         | d # ds \<Rightarrow>
             if d = CHR 0x22 \<or> d = CHR 0x5C
             then map_option (\<lambda>(s, r). (d # s, r)) (parse_chars ds)
             else None)
      else map_option (\<lambda>(s, r). (c # s, r)) (parse_chars cs))"

definition is_digit :: "char \<Rightarrow> bool" where
  "is_digit c = (48 \<le> (of_char c :: int) \<and> (of_char c :: int) \<le> 57)"

definition digits_value :: "string \<Rightarrow> int" where
  "digits_value ds = foldl (\<lambda>a c. 10 * a + (of_char c - 48)) 0 ds"

definition parse_digits :: "string \<Rightarrow> (int \<times> string) option" where
  "parse_digits s =
     (let ds = takeWhile is_digit s in
      if ds = [] \<or> (length ds > 1 \<and> hd ds = CHR ''0'') then None
      else Some (digits_value ds, dropWhile is_digit s))"

definition parse_number :: "string \<Rightarrow> (json \<times> string) option" where
  "parse_number s =
     (case s of
        [] \<Rightarrow> None
      | c # cs \<Rightarrow>
          if c = CHR ''-'' then map_option (\<lambda>(n, r). (JNum (- n), r)) (parse_digits cs)
          else map_option (\<lambda>(n, r). (JNum n, r)) (parse_digits s))"

text \<open>
  A member read after others of the same object: a key that comes again keeps its place
  and takes the later value.
\<close>

definition add_member :: "string \<Rightarrow> json \<Rightarrow> (string \<times> json) list \<Rightarrow> (string \<times> json) list" where
  "add_member k v kvs =
     (case map_of kvs k of
        None \<Rightarrow> (k, v) # kvs
      | Some v' \<Rightarrow> (k, v') # filter (\<lambda>kv. fst kv \<noteq> k) kvs)"

text \<open>
  The parser. Its first argument bounds the depth of the calls; \<open>parse\<close> gives it more
  than the length of the text, and every call but the outermost follows a character read.
\<close>

fun parse_value :: "nat \<Rightarrow> string \<Rightarrow> (json \<times> string) option"
and parse_elements :: "nat \<Rightarrow> string \<Rightarrow> (json list \<times> string) option"
and parse_members :: "nat \<Rightarrow> string \<Rightarrow> ((string \<times> json) list \<times> string) option" where
  "parse_value 0 s = None"
| "parse_value (Suc n) s =
     (case s of
        [] \<Rightarrow> None
      | c # cs \<Rightarrow>
          if c = CHR ''n'' then (if take 3 cs = ''ull'' then Some (JNull, drop 3 cs) else None)
          else if c = CHR ''t'' then
            (if take 3 cs = ''rue'' then Some (JBool True, drop 3 cs) else None)
          else if c = CHR ''f'' then
            (if take 4 cs = ''alse'' then Some (JBool False, drop 4 cs) else None)
          else if c = CHR 0x22 then map_option (\<lambda>(str, r). (JStr str, r)) (parse_chars cs)
          else if c = CHR ''['' then
            (if take 1 cs = '']'' then Some (JArr [], drop 1 cs)
             else map_option (\<lambda>(xs, r). (JArr xs, r)) (parse_elements n cs))
          else if c = CHR ''{'' then
            (if take 1 cs = ''}'' then Some (JObj [], drop 1 cs)
             else map_option (\<lambda>(kvs, r). (JObj kvs, r)) (parse_members n cs))
          else parse_number s)"
| "parse_elements 0 s = None"
| "parse_elements (Suc n) s =
     (case parse_value n s of
        None \<Rightarrow> None
      | Some (v, r) \<Rightarrow>
          (case r of
             [] \<Rightarrow> None
           | c # cs \<Rightarrow>
               if c = CHR '','' then
                 map_option (\<lambda>(vs, r'). (v # vs, r')) (parse_elements n cs)
               else if c = CHR '']'' then Some ([v], cs)
               else None))"
| "parse_members 0 s = None"
| "parse_members (Suc n) s =
     (case s of
        [] \<Rightarrow> None
      | q # qs \<Rightarrow>
          if q \<noteq> CHR 0x22 then None
          else
            (case parse_chars qs of
               None \<Rightarrow> None
             | Some (k, r) \<Rightarrow>
                 if take 1 r \<noteq> '':'' then None
                 else
                   (case parse_value n (drop 1 r) of
                      None \<Rightarrow> None
                    | Some (v, r2) \<Rightarrow>
                        (case r2 of
                           [] \<Rightarrow> None
                         | c # cs \<Rightarrow>
                             if c = CHR '','' then
                               map_option (\<lambda>(kvs, r'). (add_member k v kvs, r')) (parse_members n cs)
                             else if c = CHR ''}'' then Some ([(k, v)], cs)
                             else None))))"

definition parse :: "string \<Rightarrow> json option" where
  "parse s = (case parse_value (Suc (length s)) s of Some (v, []) \<Rightarrow> Some v | _ \<Rightarrow> None)"

text \<open>Base64: three bytes are four digits of six bits.\<close>

definition b64_alphabet :: string where
  "b64_alphabet = ''ABCDEFGHIJKLMNOPQRSTUVWXYZabcdefghijklmnopqrstuvwxyz0123456789+/''"

definition b64_char :: "nat \<Rightarrow> char" where
  "b64_char n = b64_alphabet ! n"

fun b64_encode :: "nat list \<Rightarrow> string" where
  "b64_encode [] = []"
| "b64_encode [a] = [b64_char (a div 4), b64_char (a mod 4 * 16), CHR ''='', CHR ''='']"
| "b64_encode [a, b] =
     [b64_char (a div 4), b64_char (a mod 4 * 16 + b div 16), b64_char (b mod 16 * 4),
      CHR ''='']"
| "b64_encode (a # b # c # bs) =
     [b64_char (a div 4), b64_char (a mod 4 * 16 + b div 16),
      b64_char (b mod 16 * 4 + c div 64), b64_char (c mod 64)] @ b64_encode bs"

fun index_of :: "char \<Rightarrow> string \<Rightarrow> nat option" where
  "index_of c [] = None"
| "index_of c (x # xs) = (if c = x then Some 0 else map_option Suc (index_of c xs))"

definition b64_index :: "char \<Rightarrow> nat option" where
  "b64_index c = index_of c b64_alphabet"

fun b64_decode :: "string \<Rightarrow> nat list option" where
  "b64_decode [] = Some []"
| "b64_decode (w # x # y # z # r) =
     (case (b64_index w, b64_index x) of
        (Some i, Some j) \<Rightarrow>
          if y = CHR ''='' \<and> z = CHR ''='' \<and> r = [] then Some [i * 4 + j div 16]
          else
            (case b64_index y of
               None \<Rightarrow> None
             | Some k \<Rightarrow>
                 if z = CHR ''='' \<and> r = []
                 then Some [i * 4 + j div 16, j mod 16 * 16 + k div 4]
                 else
                   (case b64_index z of
                      None \<Rightarrow> None
                    | Some l \<Rightarrow>
                        map_option
                          (\<lambda>bs. [i * 4 + j div 16, j mod 16 * 16 + k div 4, k mod 4 * 64 + l] @ bs)
                          (b64_decode r)))
      | _ \<Rightarrow> None)"
| "b64_decode s = None"

text \<open>Well-formed UTF-8, on the values of the bytes.\<close>

fun valid_utf8 :: "nat list \<Rightarrow> bool" where
  "valid_utf8 [] = True"
| "valid_utf8 (a # bs) =
     (if a < 0x80 then valid_utf8 bs
      else if 0xC2 \<le> a \<and> a \<le> 0xDF then
        (case bs of
           b # r \<Rightarrow> 0x80 \<le> b \<and> b \<le> 0xBF \<and> valid_utf8 r
         | _ \<Rightarrow> False)
      else if 0xE0 \<le> a \<and> a \<le> 0xEF then
        (case bs of
           b # c # r \<Rightarrow>
             (if a = 0xE0 then 0xA0 else 0x80) \<le> b \<and> b \<le> (if a = 0xED then 0x9F else 0xBF) \<and>
             0x80 \<le> c \<and> c \<le> 0xBF \<and> valid_utf8 r
         | _ \<Rightarrow> False)
      else if 0xF0 \<le> a \<and> a \<le> 0xF4 then
        (case bs of
           b # c # d # r \<Rightarrow>
             (if a = 0xF0 then 0x90 else 0x80) \<le> b \<and> b \<le> (if a = 0xF4 then 0x8F else 0xBF) \<and>
             0x80 \<le> c \<and> c \<le> 0xBF \<and> 0x80 \<le> d \<and> d \<le> 0xBF \<and> valid_utf8 r
         | _ \<Rightarrow> False)
      else False)"

text \<open>The checksum: eight words of 32 bits, each as eight hexadecimal digits.\<close>

definition hex_digit :: "int \<Rightarrow> char" where
  "hex_digit n = ''0123456789abcdef'' ! nat n"

definition hex8 :: "int \<Rightarrow> string" where
  "hex8 w =
     map (\<lambda>k. hex_digit (w div k mod 16))
       [268435456, 16777216, 1048576, 65536, 4096, 256, 16, 1]"

definition mix :: "int \<Rightarrow> int \<Rightarrow> int" where
  "mix h b = (h * 16777619 + b + 1) mod 4294967296"

definition checksum_digest :: "string \<Rightarrow> string" where
  "checksum_digest s =
     (let h = foldl mix 2166136261 (map of_char s)
      in concat (map (\<lambda>i. hex8 (mix (mix h i) 7)) [0, 1, 2, 3, 4, 5, 6, 7]))"

text \<open>
  The coercions, on the values of the model: an array is the texts of its elements joined
  by commas, an object is \<^verbatim>\<open>[object Object]\<close> unless a member of its own hides \<^verbatim>\<open>toString\<close>
  (\<open>None\<close>: a TypeError); a text is a number when it is empty or a decimal integer.
\<close>

fun text_of :: "json \<Rightarrow> string option" where
  "text_of JNull = Some ''null''"
| "text_of (JBool b) = Some (if b then ''true'' else ''false'')"
| "text_of (JNum n) = Some (number_toString n)"
| "text_of (JStr s) = Some s"
| "text_of (JArr xs) =
     (let ts = map (\<lambda>x. if x = JNull then Some [] else text_of x) xs
      in if None \<in> set ts then None else Some (join '','' (map the ts)))"
| "text_of (JObj kvs) =
     (if ''toString'' \<in> set (map fst kvs) then None else Some ''[object Object]'')"

definition number_of_text :: "string \<Rightarrow> int option" where
  "number_of_text s =
     (if s = [] then Some 0
      else if hd s = CHR ''-'' \<and> tl s \<noteq> [] \<and> list_all is_digit (tl s)
      then Some (- digits_value (tl s))
      else if hd s = CHR ''+'' \<and> tl s \<noteq> [] \<and> list_all is_digit (tl s)
      then Some (digits_value (tl s))
      else if list_all is_digit s then Some (digits_value s)
      else None)"

definition reference :: platform where
  "reference =
     \<lparr>JSON_parse = parse,
      JSON_stringify = stringify,
      digestSHA256 = checksum_digest,
      btoa = (\<lambda>s. Some (b64_encode (map of_char s))),
      atob = (\<lambda>s. map_option (map char_of) (b64_decode s)),
      utf8_encode = Some,
      utf8_decode = (\<lambda>s. if valid_utf8 (map of_char s) then Some s else None),
      ToNumber = (\<lambda>v. case text_of v of None \<Rightarrow> Inl TypeError | Some s \<Rightarrow> Inr (number_of_text s)),
      ToString = (\<lambda>v. case text_of v of None \<Rightarrow> Inl TypeError | Some s \<Rightarrow> Inr s)\<rparr>"

section \<open>Examples\<close>

text \<open>
  A table with an active and an inactive row, the object a read builds from the active
  row, and a record that has the email of the inactive row.
\<close>

definition example_table :: users_table where
  "example_table =
     [\<lparr>col_id = 1, col_email = ''john.athlete@sports.com'', col_name = ''John Athlete'',
       col_phone = ''+1234567890'', col_access_level = ''General'',
       col_allowed_areas = ''[\"Main Arena\",\"General Entrance\",\"Food Court\"]'',
       col_is_active = 1\<rparr>,
      \<lparr>col_id = 2, col_email = ''sarah.vip@company.com'', col_name = ''Sarah VIP Guest'',
       col_phone = ''+1234567891'', col_access_level = ''VIP'',
       col_allowed_areas = ''[\"Main Arena\",\"VIP Lounge\"]'', col_is_active = 0\<rparr>]"

definition john :: User where
  "john =
     \<lparr>email = ''john.athlete@sports.com'', name = ''John Athlete'', phone = ''+1234567890'',
      access_level = ''General'',
      allowed_areas = JArr [JStr ''Main Arena'', JStr ''General Entrance'', JStr ''Food Court''],
      is_active = True, id_user = 1\<rparr>"

definition sarah :: NewUser where
  "sarah =
     \<lparr>email = ''sarah.vip@company.com'', name = ''Sarah VIP Guest'', phone = ''+1234567891'',
      access_level = ''VIP'', allowed_areas = JArr [JStr ''Main Arena'', JStr ''VIP Lounge''],
      is_active = True\<rparr>"

text \<open>A record whose email is new to the example table, and the row it becomes.\<close>

definition alex :: NewUser where
  "alex =
     \<lparr>email = ''alex.media@news.com'', name = ''Alex Media'', phone = ''+1234567896'',
      access_level = ''General'',
      allowed_areas = JArr [JStr ''Main Arena'', JStr ''General Entrance''],
      is_active = True\<rparr>"

definition alex_row :: Row where
  "alex_row =
     \<lparr>col_id = 3, col_email = ''alex.media@news.com'', col_name = ''Alex Media'',
      col_phone = ''+1234567896'', col_access_level = ''General'',
      col_allowed_areas = ''[\"Main Arena\",\"General Entrance\"]'', col_is_active = 1\<rparr>"

text \<open>
  A device, and envelopes written as \<^verbatim>\<open>generateSecureQRData\<close> writes them: the text of
  the object with the members \<^verbatim>\<open>data\<close>, \<^verbatim>\<open>signature\<close> and \<^verbatim>\<open>timestamp\<close>; a signed envelope
  carries the digest of its data and the secret.
\<close>

definition pixel :: Device where
  "pixel =
     \<lparr>osInternalBuildId = Some ''UP1A.231005.007'', deviceName = None, osVersion = Some ''14''\<rparr>"

definition envelope_of :: "string \<Rightarrow> string \<Rightarrow> int \<Rightarrow> string" where
  "envelope_of d sg ts =
     stringify (JObj [(''data'', JStr d), (''signature'', JStr sg), (''timestamp'', JNum ts)])"

definition signed_envelope :: "string \<Rightarrow> int \<Rightarrow> string" where
  "signed_envelope d ts = envelope_of d (checksum_digest (d @ secret)) ts"

text \<open>
  Sixteen bytes of salt, their base64 text, and the marker that \<^verbatim>\<open>encryptData\<close> appends
  for this salt.
\<close>

definition salt16 :: "nat list" where
  "salt16 = [1, 2, 3, 4, 5, 6, 7, 8, 9, 10, 11, 12, 13, 14, 15, 16]"

definition salt16_base64 :: string where
  "salt16_base64 = ''AQIDBAUGBwgJCgsMDQ4PEA==''"

definition key16 :: string where
  "key16 = substring_0_32 (checksum_digest (''demo_encryption_key_2024'' @ salt16_base64))"

section \<open>Properties of the record store\<close>

lemma andThen_simps [simp]:
  "andThen (Inr x) f = f x"
  "andThen (Inl e) f = Inl e"
  by (simp_all add: andThen_def)

lemma andThen_Inr_iff: "andThen m f = Inr y \<longleftrightarrow> (\<exists>x. m = Inr x \<and> f x = Inr y)"
  by (cases m) simp_all

lemma row_to_user_active: "row_to_user P r = Inr u \<Longrightarrow> is_active u = (col_is_active r = 1)"
  by (auto simp: row_to_user_def split: option.splits)

lemma map_rows_source:
  "map_rows P rs = Inr us \<Longrightarrow> u \<in> set us \<Longrightarrow> \<exists>r\<in>set rs. row_to_user P r = Inr u"
proof (induction rs arbitrary: us)
  case Nil
  then show ?case by simp
next
  case (Cons r rs)
  from Cons.prems(1) obtain v vs where
    v: "row_to_user P r = Inr v" and vs: "map_rows P rs = Inr vs" and us: "us = v # vs"
    by (auto simp: andThen_Inr_iff)
  show ?case
  proof (cases "u = v")
    case True
    with v show ?thesis by auto
  next
    case False
    with Cons.prems(2) us have "u \<in> set vs" by simp
    with Cons.IH [OF vs] show ?thesis by auto
  qed
qed

text \<open>
  C7. Whatever the table and the email, the object that \<^verbatim>\<open>getUserByEmail\<close> returns and every
  object in the list that \<^verbatim>\<open>getAllUsers\<close> returns has \<^verbatim>\<open>is_active\<close> true, and it is built
  from a row of the table whose \<^verbatim>\<open>is_active\<close> column is 1: a row stored with another value
  is never surfaced. (\<^verbatim>\<open>getDemoUsers\<close>, \<^verbatim>\<open>getAvailableAccessLevels\<close> and
  \<^verbatim>\<open>getAvailableAreas\<close> read through \<^verbatim>\<open>getAllUsers\<close>.)
\<close>

theorem reads_surface_active_rows_only:
  "(getUserByEmail P db e = Inr (Some u) \<longrightarrow>
      is_active u \<and> email u = e \<and>
      (\<exists>tbl r. db = Some tbl \<and> r \<in> set tbl \<and> col_is_active r = 1 \<and>
         row_to_user P r = Inr u)) \<and>
   (getAllUsers P db = Inr us \<longrightarrow>
      (\<forall>v\<in>set us. is_active v \<and>
         (\<exists>tbl r. db = Some tbl \<and> r \<in> set tbl \<and> col_is_active r = 1 \<and>
            row_to_user P r = Inr v)))"
proof (intro conjI impI ballI)
  assume g: "getUserByEmail P db e = Inr (Some u)"
  then obtain tbl where db: "db = Some tbl"
    by (cases db) (simp_all add: getUserByEmail_def)
  from g db obtain r rs where sel: "select_by_email_active tbl e = r # rs"
    and ru: "row_to_user P r = Inr u"
    by (auto simp: getUserByEmail_def andThen_Inr_iff split: list.splits)
  from sel have "r \<in> set (select_by_email_active tbl e)" by simp
  then have r: "r \<in> set tbl" "col_email r = e" "col_is_active r = 1"
    by (simp_all add: select_by_email_active_def)
  from ru r show "is_active u" by (simp add: row_to_user_active)
  from ru r show "email u = e" by (auto simp: row_to_user_def split: option.splits)
  from db r ru
  show "\<exists>tbl r. db = Some tbl \<and> r \<in> set tbl \<and> col_is_active r = 1 \<and> row_to_user P r = Inr u"
    by blast
next
  fix v
  assume g: "getAllUsers P db = Inr us" and v: "v \<in> set us"
  then obtain tbl where db: "db = Some tbl"
    by (cases db) (simp_all add: getAllUsers_def)
  from g db have "map_rows P (select_active tbl) = Inr us"
    by (simp add: getAllUsers_def)
  from map_rows_source [OF this v] obtain r where
    r: "r \<in> set tbl" "col_is_active r = 1" and ru: "row_to_user P r = Inr v"
    by (auto simp: select_active_def)
  from ru r show "is_active v" by (simp add: row_to_user_active)
  from db r ru
  show "\<exists>tbl r. db = Some tbl \<and> r \<in> set tbl \<and> col_is_active r = 1 \<and> row_to_user P r = Inr v"
    by blast
qed

text \<open>
  On the example table both reads return the active row only; the lookup of the inactive
  row's email finds nothing.
\<close>

theorem reads_surface_active_rows_only_witness:
  "getUserByEmail reference (Some example_table) ''john.athlete@sports.com'' = Inr (Some john) \<and>
   getAllUsers reference (Some example_table) = Inr [john] \<and>
   getUserByEmail reference (Some example_table) ''sarah.vip@company.com'' = Inr None \<and>
   is_active john"
proof -
  have a: "getUserByEmail reference (Some example_table) ''john.athlete@sports.com'' =
      Inr (Some john)"
    by code_simp
  have b: "getAllUsers reference (Some example_table) = Inr [john]"
    by code_simp
  have c: "getUserByEmail reference (Some example_table) ''sarah.vip@company.com'' = Inr None"
    by code_simp
  from a reads_surface_active_rows_only
    [of reference "Some example_table" "''john.athlete@sports.com''" john "[john]"]
  have "is_active john" by blast
  with a b c show ?thesis by blast
qed

lemma insert_or_ignore_present:
  "e \<in> set (map col_email tbl) \<Longrightarrow> insert_or_ignore tbl e n p al ar act = tbl"
  by (simp add: insert_or_ignore_def)

lemma insert_or_ignore_email:
  "e \<in> set (map col_email (insert_or_ignore tbl e n p al ar act))"
  by (simp add: insert_or_ignore_def)

lemma count_one_of_distinct:
  "distinct (map f xs) \<Longrightarrow> k \<in> set (map f xs) \<Longrightarrow> length (filter (\<lambda>x. f x = k) xs) = 1"
proof (induction xs)
  case Nil
  then show ?case by simp
next
  case (Cons x xs)
  show ?case
  proof (cases "f x = k")
    case True
    with Cons.prems have "k \<notin> f ` set xs" by auto
    then have "filter (\<lambda>x. f x = k) xs = []" by (auto simp: filter_empty_conv)
    with True show ?thesis by simp
  next
    case False
    with Cons show ?thesis by auto
  qed
qed

lemma next_rowid_fresh: "next_rowid tbl \<notin> set (map col_id tbl)"
proof (cases "tbl = []")
  case True
  then show ?thesis by simp
next
  case False
  have "\<forall>i\<in>set (map col_id tbl). i \<le> Max (set (map col_id tbl))" by simp
  then have "\<forall>i\<in>set (map col_id tbl). i < next_rowid tbl"
    using False by (auto simp: next_rowid_def intro: le_less_trans)
  then show ?thesis by blast
qed

lemma table_ok_insert_or_ignore:
  "table_ok tbl \<Longrightarrow> table_ok (insert_or_ignore tbl e n p al ar act)"
  using next_rowid_fresh [of tbl] by (auto simp: table_ok_def insert_or_ignore_def)

text \<open>
  C8. In a table that meets its constraints, \<^verbatim>\<open>insertUser\<close> of a record \<open>r\<close> returns
  without a throw and leaves exactly one row with the email of \<open>r\<close>; a further
  \<^verbatim>\<open>insertUser\<close> of \<open>r\<close>, or of any record \<open>r2\<close> with the same email, returns the table
  unchanged; and when a row with that email was there before, active or not, the first
  insert already changes nothing.
\<close>

theorem insertUser_idempotent:
  assumes "table_ok tbl" and "email r2 = email r"
  shows "\<exists>tbl1. insertUser P (Some tbl) r = Inr (Some tbl1) \<and>
           insertUser P (Some tbl1) r = Inr (Some tbl1) \<and>
           insertUser P (Some tbl1) r2 = Inr (Some tbl1) \<and>
           length (filter (\<lambda>x. col_email x = email r) tbl1) = 1 \<and>
           table_ok tbl1 \<and>
           (if email r \<in> set (map col_email tbl) then tbl1 = tbl
            else length tbl1 = Suc (length tbl))"
proof -
  define tbl1 where "tbl1 = insert_or_ignore tbl (email r) (name r) (phone r) (access_level r)
    (JSON_stringify P (allowed_areas r)) (if is_active r then 1 else 0)"
  have ins: "insertUser P (Some tbl) r = Inr (Some tbl1)"
    by (simp add: insertUser_def tbl1_def)
  have mem: "email r \<in> set (map col_email tbl1)"
    unfolding tbl1_def by (rule insert_or_ignore_email)
  have ok: "table_ok tbl1"
    unfolding tbl1_def using assms(1) by (rule table_ok_insert_or_ignore)
  have again: "insertUser P (Some tbl1) r = Inr (Some tbl1)"
    using mem by (simp add: insertUser_def insert_or_ignore_present)
  have again2: "insertUser P (Some tbl1) r2 = Inr (Some tbl1)"
    using mem assms(2) by (simp add: insertUser_def insert_or_ignore_present)
  have one: "length (filter (\<lambda>x. col_email x = email r) tbl1) = 1"
    using ok mem by (intro count_one_of_distinct) (simp_all add: table_ok_def)
  have same: "if email r \<in> set (map col_email tbl) then tbl1 = tbl
    else length tbl1 = Suc (length tbl)"
    by (simp add: tbl1_def insert_or_ignore_def)
  from ins again again2 one ok same show ?thesis by blast
qed

text \<open>
  Alex is new to the example table: the first insert appends his row, the second changes
  nothing. The table holds an inactive row with Sarah's email: inserting her record, active,
  leaves the table as it is.
\<close>

theorem insertUser_idempotent_witness:
  "table_ok example_table \<and>
   insertUser reference (Some example_table) alex = Inr (Some (example_table @ [alex_row])) \<and>
   insertUser reference (Some (example_table @ [alex_row])) alex =
     Inr (Some (example_table @ [alex_row])) \<and>
   length (filter (\<lambda>x. col_email x = email alex) (example_table @ [alex_row])) = 1 \<and>
   insertUser reference (Some example_table) sarah = Inr (Some example_table) \<and>
   length (filter (\<lambda>x. col_email x = email sarah) example_table) = 1"
proof -
  have ok: "table_ok example_table" by code_simp
  have new: "insertUser reference (Some example_table) alex =
      Inr (Some (example_table @ [alex_row]))"
    by code_simp
  have mem: "email sarah \<in> set (map col_email example_table)" by code_simp
  from insertUser_idempotent [OF ok refl, where r = alex and P = reference] new
  have 1: "insertUser reference (Some (example_table @ [alex_row])) alex =
      Inr (Some (example_table @ [alex_row])) \<and>
    length (filter (\<lambda>x. col_email x = email alex) (example_table @ [alex_row])) = 1"
    by auto
  from insertUser_idempotent [OF ok refl, where r = sarah and P = reference] mem
  have 2: "insertUser reference (Some example_table) sarah = Inr (Some example_table) \<and>
    length (filter (\<lambda>x. col_email x = email sarah) example_table) = 1"
    by auto
  from ok new 1 2 show ?thesis by blast
qed

section \<open>Properties of the remembered credentials\<close>

text \<open>
  C10. \<^verbatim>\<open>storeUserCredentials(email, false)\<close> returns the secret store as it was: the
  remembered email and the time of the last login are what they were before, written or
  not. Removing them is what \<^verbatim>\<open>clearStoredCredentials\<close> does.
\<close>

theorem storeUserCredentials_without_remember:
  "storeUserCredentials writable now st e False = st \<and>
   getStoredEmail (storeUserCredentials writable now st e False) = getStoredEmail st \<and>
   storeUserCredentials writable now st e False ''lastLoginTime'' = st ''lastLoginTime'' \<and>
   getStoredEmail (clearStoredCredentials st) = None \<and>
   clearStoredCredentials st ''lastLoginTime'' = None"
  by (simp add: storeUserCredentials_def getStoredEmail_def clearStoredCredentials_def)

section \<open>Properties of the access tokens\<close>

lemma reference_simps [simp]:
  "JSON_parse reference = parse"
  "JSON_stringify reference = stringify"
  "digestSHA256 reference = checksum_digest"
  by (simp_all add: reference_def)

text \<open>
  What the body of \<^verbatim>\<open>verifyQRData\<close> does once the text has parsed and the three members
  have been read.
\<close>

lemma verify_envelope:
  assumes "JSON_parse P qrData = Some parsed"
    and "get_prop parsed ''data'' = Inr d"
    and "get_prop parsed ''signature'' = Inr sg"
    and "get_prop parsed ''timestamp'' = Inr ts"
  shows "verifyQRData_try P now1 now2 qrData =
           (if \<not> truthy d \<or> \<not> truthy sg \<or> \<not> truthy ts
            then Inr (rejected ''Invalid QR format'')
            else
              andThen (to_number P ts) (\<lambda>n.
                if minus_gt now1 n (24 * 60 * 60 * 1000)
                then Inr (rejected ''QR code expired'')
                else
                  andThen (to_string P d) (\<lambda>dataString.
                    if sg \<noteq> Some (JStr (digestSHA256 P (dataString @ secret)))
                    then Inr (rejected ''QR code tampered'')
                    else
                      (case JSON_parse P dataString of
                         None \<Rightarrow> Inl SyntaxError
                       | Some parsedPayload \<Rightarrow>
                           andThen (get_prop parsedPayload ''expires_at'') (\<lambda>expires_at.
                             if truthy expires_at
                             then andThen (to_number P expires_at) (\<lambda>ex.
                                    if gt_num now2 ex
                                    then Inr (rejected ''QR code expired'')
                                    else Inr (accepted parsedPayload))
                             else Inr (accepted parsedPayload))))))"
  unfolding verifyQRData_try_def Let_def using assms by simp

text \<open>
  The same for an envelope that passes the format check with a text as data and a number
  as issue time, and that is not older than 24 hours.
\<close>

lemma verify_signed:
  assumes "JSON_parse P qrData = Some parsed"
    and "get_prop parsed ''data'' = Inr (Some (JStr d))" and "d \<noteq> []"
    and "get_prop parsed ''signature'' = Inr sg" and "truthy sg"
    and "get_prop parsed ''timestamp'' = Inr (Some (JNum ts))" and "ts \<noteq> 0"
    and "now1 - ts \<le> 24 * 60 * 60 * 1000"
  shows "verifyQRData P now1 now2 qrData =
           (if sg \<noteq> Some (JStr (digestSHA256 P (d @ secret)))
            then rejected ''QR code tampered''
            else
              (case JSON_parse P d of
                 None \<Rightarrow> rejected ''Invalid QR data''
               | Some parsedPayload \<Rightarrow>
                   (case get_prop parsedPayload ''expires_at'' of
                      Inl e \<Rightarrow> rejected ''Invalid QR data''
                    | Inr expires_at \<Rightarrow>
                        if truthy expires_at
                        then (case to_number P expires_at of
                                Inl e \<Rightarrow> rejected ''Invalid QR data''
                              | Inr ex \<Rightarrow>
                                  if gt_num now2 ex then rejected ''QR code expired''
                                  else accepted parsedPayload)
                        else accepted parsedPayload)))"
  using assms
  by (simp add: verifyQRData_def verify_envelope [OF assms(1,2,4,6)] andThen_def minus_gt_def
      split: option.splits sum.splits)

text \<open>
  C3, as amended. Let the text parse. If its \<^verbatim>\<open>data\<close> and \<^verbatim>\<open>signature\<close> are present and truthy
  (not \<^verbatim>\<open>null\<close>, \<^verbatim>\<open>false\<close>, 0 or the empty text), its \<^verbatim>\<open>timestamp\<close> is a number other than 0,
  and the clock is more than 24 hours past that number, then \<^verbatim>\<open>verifyQRData\<close> returns
  \<^verbatim>\<open>{ valid: false, reason: 'QR code expired' }\<close>, whatever the signature is: the age is
  checked before the digest is computed. And if one of the three members is absent or
  falsy (a \<^verbatim>\<open>timestamp\<close> of 0, an empty \<^verbatim>\<open>data\<close> or \<^verbatim>\<open>signature\<close>), then \<^verbatim>\<open>verifyQRData\<close> returns
  \<^verbatim>\<open>{ valid: false, reason: 'Invalid QR format' }\<close>, whatever the clock reads.
\<close>

theorem hard_window_precedes_signature:
  "(JSON_parse P qrData = Some parsed \<and>
    get_prop parsed ''data'' = Inr d \<and> truthy d \<and>
    get_prop parsed ''signature'' = Inr sg \<and> truthy sg \<and>
    get_prop parsed ''timestamp'' = Inr (Some (JNum ts)) \<and> ts \<noteq> 0 \<and>
    now1 - ts > 24 * 60 * 60 * 1000 \<longrightarrow>
      verifyQRData P now1 now2 qrData = rejected ''QR code expired'') \<and>
   (JSON_parse P qrData = Some parsed \<and>
    get_prop parsed ''data'' = Inr m1 \<and>
    get_prop parsed ''signature'' = Inr m2 \<and>
    get_prop parsed ''timestamp'' = Inr m3 \<and>
    (\<not> truthy m1 \<or> \<not> truthy m2 \<or> \<not> truthy m3) \<longrightarrow>
      verifyQRData P now1 now2 qrData = rejected ''Invalid QR format'')"
proof (intro conjI impI)
  assume a: "JSON_parse P qrData = Some parsed \<and>
    get_prop parsed ''data'' = Inr d \<and> truthy d \<and>
    get_prop parsed ''signature'' = Inr sg \<and> truthy sg \<and>
    get_prop parsed ''timestamp'' = Inr (Some (JNum ts)) \<and> ts \<noteq> 0 \<and>
    now1 - ts > 24 * 60 * 60 * 1000"
  then have "verifyQRData_try P now1 now2 qrData = Inr (rejected ''QR code expired'')"
    by (simp add: verify_envelope [of P qrData parsed d sg "Some (JNum ts)"] minus_gt_def)
  then show "verifyQRData P now1 now2 qrData = rejected ''QR code expired''"
    by (simp add: verifyQRData_def)
next
  assume a: "JSON_parse P qrData = Some parsed \<and>
    get_prop parsed ''data'' = Inr m1 \<and>
    get_prop parsed ''signature'' = Inr m2 \<and>
    get_prop parsed ''timestamp'' = Inr m3 \<and>
    (\<not> truthy m1 \<or> \<not> truthy m2 \<or> \<not> truthy m3)"
  then have "verifyQRData_try P now1 now2 qrData = Inr (rejected ''Invalid QR format'')"
    by (simp add: verify_envelope [of P qrData parsed m1 m2 m3])
  then show "verifyQRData P now1 now2 qrData = rejected ''Invalid QR format''"
    by (simp add: verifyQRData_def)
qed

text \<open>
  An envelope issued at 1700000000000 with a signature that is no digest, read one
  millisecond after its 24 hours; and, read at the same time, an envelope with an empty
  \<^verbatim>\<open>data\<close> and one with an empty \<^verbatim>\<open>signature\<close>.
\<close>

theorem hard_window_precedes_signature_witness:
  "(1700086400001 :: int) - 1700000000000 > 24 * 60 * 60 * 1000 \<and>
   verifyQRData reference 1700086400001 1700086400001 (envelope_of ''x'' ''y'' 1700000000000) =
     rejected ''QR code expired'' \<and>
   verifyQRData reference 1700086400001 1700086400001 (envelope_of [] ''y'' 1700000000000) =
     rejected ''Invalid QR format'' \<and>
   verifyQRData reference 1700086400001 1700086400001 (envelope_of ''x'' [] 1700000000000) =
     rejected ''Invalid QR format''"
proof -
  have p: "JSON_parse reference (envelope_of ''x'' ''y'' 1700000000000) =
      Some (JObj [(''data'', JStr ''x''), (''signature'', JStr ''y''),
                  (''timestamp'', JNum 1700000000000)])"
    by code_simp
  have p1: "JSON_parse reference (envelope_of [] ''y'' 1700000000000) =
      Some (JObj [(''data'', JStr []), (''signature'', JStr ''y''),
                  (''timestamp'', JNum 1700000000000)])"
    by code_simp
  have p2: "JSON_parse reference (envelope_of ''x'' [] 1700000000000) =
      Some (JObj [(''data'', JStr ''x''), (''signature'', JStr []),
                  (''timestamp'', JNum 1700000000000)])"
    by code_simp
  have 1: "verifyQRData reference 1700086400001 1700086400001
      (envelope_of ''x'' ''y'' 1700000000000) = rejected ''QR code expired''"
    using p hard_window_precedes_signature
      [where P = reference and qrData = "envelope_of ''x'' ''y'' 1700000000000"
         and parsed = "JObj [(''data'', JStr ''x''), (''signature'', JStr ''y''),
                             (''timestamp'', JNum 1700000000000)]"
         and d = "Some (JStr ''x'')" and sg = "Some (JStr ''y'')" and ts = 1700000000000
         and ?now1.0 = 1700086400001 and ?now2.0 = 1700086400001]
    by simp
  have 2: "verifyQRData reference 1700086400001 1700086400001
      (envelope_of [] ''y'' 1700000000000) = rejected ''Invalid QR format''"
    using p1 hard_window_precedes_signature
      [where P = reference and qrData = "envelope_of [] ''y'' 1700000000000"
         and parsed = "JObj [(''data'', JStr []), (''signature'', JStr ''y''),
                             (''timestamp'', JNum 1700000000000)]"
         and ?m1.0 = "Some (JStr [])" and ?m2.0 = "Some (JStr ''y'')"
         and ?m3.0 = "Some (JNum 1700000000000)"
         and ?now1.0 = 1700086400001 and ?now2.0 = 1700086400001]
    by simp
  have 3: "verifyQRData reference 1700086400001 1700086400001
      (envelope_of ''x'' [] 1700000000000) = rejected ''Invalid QR format''"
    using p2 hard_window_precedes_signature
      [where P = reference and qrData = "envelope_of ''x'' [] 1700000000000"
         and parsed = "JObj [(''data'', JStr ''x''), (''signature'', JStr []),
                             (''timestamp'', JNum 1700000000000)]"
         and ?m1.0 = "Some (JStr ''x'')" and ?m2.0 = "Some (JStr [])"
         and ?m3.0 = "Some (JNum 1700000000000)"
         and ?now1.0 = 1700086400001 and ?now2.0 = 1700086400001]
    by simp
  from 1 2 3 show ?thesis by simp
qed

text \<open>
  The claim as it stands fails on an envelope whose \<^verbatim>\<open>timestamp\<close> is present and 0: the text
  \<^verbatim>\<open>{"data":"x","signature":"y","timestamp":0}\<close>, read at 1700000000000, has all three
  members and is far older than 24 hours, and the result is
  \<^verbatim>\<open>{ valid: false, reason: 'Invalid QR format' }\<close>.
\<close>

theorem hard_window_counterexample:
  "envelope_of ''x'' ''y'' 0 = ''{\"data\":\"x\",\"signature\":\"y\",\"timestamp\":0}'' \<and>
   JSON_parse reference (envelope_of ''x'' ''y'' 0) =
     Some (JObj [(''data'', JStr ''x''), (''signature'', JStr ''y''), (''timestamp'', JNum 0)]) \<and>
   (1700000000000 :: int) - 0 > 24 * 60 * 60 * 1000 \<and>
   verifyQRData reference 1700000000000 1700000000000 (envelope_of ''x'' ''y'' 0) =
     rejected ''Invalid QR format'' \<and>
   verifyQRData reference 1700000000000 1700000000000 (envelope_of ''x'' ''y'' 0) \<noteq>
     rejected ''QR code expired''"
proof -
  have p: "JSON_parse reference (envelope_of ''x'' ''y'' 0) =
      Some (JObj [(''data'', JStr ''x''), (''signature'', JStr ''y''), (''timestamp'', JNum 0)])"
    by code_simp
  have v: "verifyQRData reference 1700000000000 1700000000000 (envelope_of ''x'' ''y'' 0) =
      rejected ''Invalid QR format''"
    by (simp add: verifyQRData_def verify_envelope [OF p])
  have t: "envelope_of ''x'' ''y'' 0 = ''{\"data\":\"x\",\"signature\":\"y\",\"timestamp\":0}''"
    by code_simp
  from t p v show ?thesis by (simp add: rejected_def)
qed

text \<open>
  C2. Take an envelope that passes the format check (its \<^verbatim>\<open>data\<close> and \<^verbatim>\<open>signature\<close> are
  texts that are not empty, its \<^verbatim>\<open>timestamp\<close> a number other than 0) and is not older than
  24 hours. If its signature is the digest of \<open>signed\<close> and the secret, its data differs
  from \<open>signed\<close>, and the digest is injective on the two texts, then \<^verbatim>\<open>verifyQRData\<close> returns
  \<^verbatim>\<open>{ valid: false, reason: 'QR code tampered' }\<close>.
\<close>

theorem tampered_data_rejected:
  assumes "JSON_parse P qrData = Some parsed"
    and "get_prop parsed ''data'' = Inr (Some (JStr d))" and "d \<noteq> []"
    and "get_prop parsed ''signature'' = Inr (Some (JStr sg))" and "sg \<noteq> []"
    and "get_prop parsed ''timestamp'' = Inr (Some (JNum ts))" and "ts \<noteq> 0"
    and "now1 - ts \<le> 24 * 60 * 60 * 1000"
    and "sg = digestSHA256 P (signed @ secret)"
    and "d \<noteq> signed"
    and "inj_on (digestSHA256 P) {d @ secret, signed @ secret}"
  shows "verifyQRData P now1 now2 qrData = rejected ''QR code tampered''"
proof -
  have "digestSHA256 P (d @ secret) \<noteq> digestSHA256 P (signed @ secret)"
    using assms(10,11) by (auto simp: inj_on_def)
  with assms(9) have "Some (JStr sg) \<noteq> Some (JStr (digestSHA256 P (d @ secret)))"
    by auto
  with verify_signed [OF assms(1,2,3,4) _ assms(6,7,8), of now2] assms(5)
  show ?thesis by simp
qed

text \<open>
  An envelope signed for user 1 whose data has been changed to user 2, read half a second
  after it was issued.
\<close>

theorem tampered_data_rejected_witness:
  "verifyQRData reference 1700000000500 1700000000500
     (envelope_of ''{\"user_id\":2}'' (checksum_digest (''{\"user_id\":1}'' @ secret)) 1700000000000) =
   rejected ''QR code tampered''"
proof -
  let ?sg = "checksum_digest (''{\"user_id\":1}'' @ secret)"
  have p: "JSON_parse reference (envelope_of ''{\"user_id\":2}'' ?sg 1700000000000) =
      Some (JObj [(''data'', JStr ''{\"user_id\":2}''), (''signature'', JStr ?sg),
                  (''timestamp'', JNum 1700000000000)])"
    by code_simp
  have ne: "?sg \<noteq> []" by code_simp
  have dg: "checksum_digest (''{\"user_id\":2}'' @ secret) \<noteq>
      checksum_digest (''{\"user_id\":1}'' @ secret)"
    by code_simp
  have inj: "inj_on (digestSHA256 reference)
      {''{\"user_id\":2}'' @ secret, ''{\"user_id\":1}'' @ secret}"
    using dg by (auto simp: inj_on_def)
  show ?thesis
    by (rule tampered_data_rejected
        [OF p _ _ _ ne _ _ _ _ _ inj, where ts = 1700000000000]) simp_all
qed

text \<open>
  C4, as amended. The payload that \<^verbatim>\<open>generateSecureQRData\<close> serialises into the \<^verbatim>\<open>data\<close>
  member of its envelope has \<^verbatim>\<open>expires_at\<close> equal to its \<^verbatim>\<open>timestamp\<close> plus 3600000. And for
  an envelope that passes the format check, is not older than 24 hours and carries the
  digest of its data and the secret: if the data parses to a payload whose \<^verbatim>\<open>expires_at\<close>
  is a number other than 0 and earlier than the clock, \<^verbatim>\<open>verifyQRData\<close> returns
  \<^verbatim>\<open>{ valid: false, reason: 'QR code expired' }\<close>.
\<close>

theorem soft_window_expired:
  "generateSecureQRData P dev t u =
     JSON_stringify P
       (JObj [(''data'', JStr (JSON_stringify P (qrPayload P dev t u))),
              (''signature'',
               JStr (digestSHA256 P (JSON_stringify P (qrPayload P dev t u) @ secret))),
              (''timestamp'', JNum t)]) \<and>
   get_prop (qrPayload P dev t u) ''timestamp'' = Inr (Some (JNum t)) \<and>
   get_prop (qrPayload P dev t u) ''expires_at'' = Inr (Some (JNum (t + 3600000))) \<and>
   (JSON_parse P qrData = Some parsed \<and>
    get_prop parsed ''data'' = Inr (Some (JStr d)) \<and> d \<noteq> [] \<and>
    get_prop parsed ''signature'' = Inr (Some (JStr (digestSHA256 P (d @ secret)))) \<and>
    digestSHA256 P (d @ secret) \<noteq> [] \<and>
    get_prop parsed ''timestamp'' = Inr (Some (JNum ts)) \<and> ts \<noteq> 0 \<and>
    now1 - ts \<le> 24 * 60 * 60 * 1000 \<and>
    JSON_parse P d = Some pl \<and>
    get_prop pl ''expires_at'' = Inr (Some (JNum ex)) \<and> ex \<noteq> 0 \<and> ex < now2 \<longrightarrow>
      verifyQRData P now1 now2 qrData = rejected ''QR code expired'')"
proof (intro conjI impI)
  show "generateSecureQRData P dev t u =
     JSON_stringify P
       (JObj [(''data'', JStr (JSON_stringify P (qrPayload P dev t u))),
              (''signature'',
               JStr (digestSHA256 P (JSON_stringify P (qrPayload P dev t u) @ secret))),
              (''timestamp'', JNum t)])"
    by (simp add: generateSecureQRData_def Let_def)
  show "get_prop (qrPayload P dev t u) ''timestamp'' = Inr (Some (JNum t))"
    by (simp add: qrPayload_def)
  show "get_prop (qrPayload P dev t u) ''expires_at'' = Inr (Some (JNum (t + 3600000)))"
    by (simp add: qrPayload_def)
next
  assume a: "JSON_parse P qrData = Some parsed \<and>
    get_prop parsed ''data'' = Inr (Some (JStr d)) \<and> d \<noteq> [] \<and>
    get_prop parsed ''signature'' = Inr (Some (JStr (digestSHA256 P (d @ secret)))) \<and>
    digestSHA256 P (d @ secret) \<noteq> [] \<and>
    get_prop parsed ''timestamp'' = Inr (Some (JNum ts)) \<and> ts \<noteq> 0 \<and>
    now1 - ts \<le> 24 * 60 * 60 * 1000 \<and>
    JSON_parse P d = Some pl \<and>
    get_prop pl ''expires_at'' = Inr (Some (JNum ex)) \<and> ex \<noteq> 0 \<and> ex < now2"
  then have "truthy (Some (JStr (digestSHA256 P (d @ secret))))" by simp
  with a verify_signed [of P qrData parsed d "Some (JStr (digestSHA256 P (d @ secret)))" ts now1 now2]
  show "verifyQRData P now1 now2 qrData = rejected ''QR code expired''"
    by (simp add: gt_num_def)
qed

text \<open>
  An envelope issued at 1700000000000 whose payload expired five minutes later, read ten
  minutes after it was issued.
\<close>

theorem soft_window_expired_witness:
  "(1700000300000 :: int) < 1700000600000 \<and>
   verifyQRData reference 1700000600000 1700000600000
     (signed_envelope ''{\"expires_at\":1700000300000}'' 1700000000000) =
   rejected ''QR code expired''"
proof -
  let ?d = "''{\"expires_at\":1700000300000}''"
  have p: "JSON_parse reference (signed_envelope ?d 1700000000000) =
      Some (JObj [(''data'', JStr ?d), (''signature'', JStr (checksum_digest (?d @ secret))),
                  (''timestamp'', JNum 1700000000000)])"
    by code_simp
  have ne: "digestSHA256 reference (?d @ secret) \<noteq> []" by code_simp
  have q: "JSON_parse reference ?d = Some (JObj [(''expires_at'', JNum 1700000300000)])"
    by code_simp
  have "verifyQRData reference 1700000600000 1700000600000 (signed_envelope ?d 1700000000000) =
      rejected ''QR code expired''"
    using p ne q soft_window_expired
      [of reference pixel 0 john "signed_envelope ?d 1700000000000"
          "JObj [(''data'', JStr ?d), (''signature'', JStr (checksum_digest (?d @ secret))),
                 (''timestamp'', JNum 1700000000000)]"
          ?d 1700000000000 1700000600000 "JObj [(''expires_at'', JNum 1700000300000)]"
          1700000300000 1700000600000]
    by simp
  then show ?thesis by simp
qed

text \<open>
  The second part of the claim as it stands fails on a payload whose \<^verbatim>\<open>expires_at\<close> is 0: a
  correctly signed envelope with the data \<^verbatim>\<open>{"expires_at":0}\<close>, read half a second after it
  was issued, is accepted, though 0 is earlier than the clock.
\<close>

theorem soft_window_counterexample:
  "JSON_parse reference (signed_envelope ''{\"expires_at\":0}'' 1700000000000) =
     Some (JObj [(''data'', JStr ''{\"expires_at\":0}''),
                 (''signature'', JStr (digestSHA256 reference (''{\"expires_at\":0}'' @ secret))),
                 (''timestamp'', JNum 1700000000000)]) \<and>
   JSON_parse reference ''{\"expires_at\":0}'' = Some (JObj [(''expires_at'', JNum 0)]) \<and>
   (0 :: int) < 1700000000500 \<and>
   verifyQRData reference 1700000000500 1700000000500
     (signed_envelope ''{\"expires_at\":0}'' 1700000000000) =
   accepted (JObj [(''expires_at'', JNum 0)]) \<and>
   verifyQRData reference 1700000000500 1700000000500
     (signed_envelope ''{\"expires_at\":0}'' 1700000000000) \<noteq>
   rejected ''QR code expired''"
proof -
  let ?d = "''{\"expires_at\":0}''"
  have p: "JSON_parse reference (signed_envelope ?d 1700000000000) =
      Some (JObj [(''data'', JStr ?d), (''signature'', JStr (digestSHA256 reference (?d @ secret))),
                  (''timestamp'', JNum 1700000000000)])"
    by code_simp
  have ne: "digestSHA256 reference (?d @ secret) \<noteq> []" by code_simp
  have q: "JSON_parse reference ?d = Some (JObj [(''expires_at'', JNum 0)])"
    by code_simp
  have v: "verifyQRData reference 1700000000500 1700000000500 (signed_envelope ?d 1700000000000) =
      accepted (JObj [(''expires_at'', JNum 0)])"
    using ne q verify_signed
      [OF p, where d = ?d and sg = "Some (JStr (digestSHA256 reference (?d @ secret)))"
         and ts = 1700000000000 and ?now1.0 = 1700000000500 and ?now2.0 = 1700000000500]
    by simp
  from p q v show ?thesis by (simp add: accepted_def rejected_def)
qed

text \<open>
  C9, as amended. For an envelope that passes the format check, is not older than 24 hours
  and carries the digest of its data and the secret: if the data parses to a payload other
  than \<^verbatim>\<open>null\<close> on which the read of \<^verbatim>\<open>expires_at\<close> gives \<^verbatim>\<open>undefined\<close> (the member is absent)
  or a falsy value (0, \<^verbatim>\<open>null\<close>, \<^verbatim>\<open>false\<close>, the empty text), then \<^verbatim>\<open>verifyQRData\<close> returns
  \<^verbatim>\<open>{ valid: true, payload }\<close> whatever the second reading of the clock is.
\<close>

theorem falsy_expiry_skips_soft_window:
  assumes "JSON_parse P qrData = Some parsed"
    and "get_prop parsed ''data'' = Inr (Some (JStr d))" and "d \<noteq> []"
    and "get_prop parsed ''signature'' = Inr (Some (JStr (digestSHA256 P (d @ secret))))"
    and "digestSHA256 P (d @ secret) \<noteq> []"
    and "get_prop parsed ''timestamp'' = Inr (Some (JNum ts))" and "ts \<noteq> 0"
    and "now1 - ts \<le> 24 * 60 * 60 * 1000"
    and "JSON_parse P d = Some pl"
    and "pl \<noteq> JNull"
    and "get_prop pl ''expires_at'' = Inr ex" and "\<not> truthy ex"
  shows "verifyQRData P now1 now2 qrData = accepted pl"
  using verify_signed [OF assms(1,2,3,4) _ assms(6,7,8), of now2] assms(5,9,11,12)
  by simp

text \<open>
  A signed envelope whose payload has no \<^verbatim>\<open>expires_at\<close>, read 23 hours after it was issued.
\<close>

theorem falsy_expiry_skips_soft_window_witness:
  "(1700082800000 :: int) - 1700000000000 \<le> 24 * 60 * 60 * 1000 \<and>
   JObj [(''user_id'', JNum 1)] \<noteq> JNull \<and>
   verifyQRData reference 1700082800000 1700082800000
     (signed_envelope ''{\"user_id\":1}'' 1700000000000) =
   accepted (JObj [(''user_id'', JNum 1)])"
proof -
  let ?d = "''{\"user_id\":1}''"
  have p: "JSON_parse reference (signed_envelope ?d 1700000000000) =
      Some (JObj [(''data'', JStr ?d), (''signature'', JStr (digestSHA256 reference (?d @ secret))),
                  (''timestamp'', JNum 1700000000000)])"
    by code_simp
  have ne: "digestSHA256 reference (?d @ secret) \<noteq> []" by code_simp
  have q: "JSON_parse reference ?d = Some (JObj [(''user_id'', JNum 1)])"
    by code_simp
  have "verifyQRData reference 1700082800000 1700082800000 (signed_envelope ?d 1700000000000) =
      accepted (JObj [(''user_id'', JNum 1)])"
    using falsy_expiry_skips_soft_window
      [OF p _ _ _ ne _ _ _ q, where ts = 1700000000000 and ex = None
         and ?now1.0 = 1700082800000 and ?now2.0 = 1700082800000]
    by simp
  then show ?thesis by simp
qed

text \<open>
  The claim as it stands fails on the payload \<^verbatim>\<open>null\<close>: it parses and has no \<^verbatim>\<open>expires_at\<close>,
  but the read \<^verbatim>\<open>payload.expires_at\<close> throws on it, and the \<^verbatim>\<open>catch\<close> block returns
  \<^verbatim>\<open>{ valid: false, reason: 'Invalid QR data' }\<close>. The envelope is correctly signed and read
  half a second after it was issued.
\<close>

theorem falsy_expiry_counterexample:
  "JSON_parse reference (signed_envelope ''null'' 1700000000000) =
     Some (JObj [(''data'', JStr ''null''),
                 (''signature'', JStr (digestSHA256 reference (''null'' @ secret))),
                 (''timestamp'', JNum 1700000000000)]) \<and>
   JSON_parse reference ''null'' = Some JNull \<and>
   (1700000000500 :: int) - 1700000000000 \<le> 24 * 60 * 60 * 1000 \<and>
   verifyQRData reference 1700000000500 1700000000500 (signed_envelope ''null'' 1700000000000) =
     rejected ''Invalid QR data'' \<and>
   verifyQRData reference 1700000000500 1700000000500 (signed_envelope ''null'' 1700000000000) \<noteq>
     accepted JNull"
proof -
  let ?d = "''null''"
  have p: "JSON_parse reference (signed_envelope ?d 1700000000000) =
      Some (JObj [(''data'', JStr ?d), (''signature'', JStr (digestSHA256 reference (?d @ secret))),
                  (''timestamp'', JNum 1700000000000)])"
    by code_simp
  have ne: "digestSHA256 reference (?d @ secret) \<noteq> []" by code_simp
  have q: "JSON_parse reference ?d = Some JNull"
    by code_simp
  have v: "verifyQRData reference 1700000000500 1700000000500 (signed_envelope ?d 1700000000000) =
      rejected ''Invalid QR data''"
    using ne q verify_signed
      [OF p, where d = ?d and sg = "Some (JStr (digestSHA256 reference (?d @ secret)))"
         and ts = 1700000000000 and ?now1.0 = 1700000000500 and ?now2.0 = 1700000000500]
    by simp
  from p q v show ?thesis by (simp add: accepted_def rejected_def)
qed

text \<open>
  C1, as amended. Let the token be issued at a clock reading \<open>t\<close> other than 0 and verified
  while neither horizon has passed (the first reading of the clock at most 24 hours after
  \<open>t\<close>, the second at most one hour after \<open>t\<close>; both hold when the clock still reads \<open>t\<close>).
  If \<^verbatim>\<open>JSON.parse\<close> gives back the envelope and the payload that \<^verbatim>\<open>JSON.stringify\<close> wrote
  (\<open>roundtrips\<close>), and neither the serialised payload nor its digest is the empty text, then
  \<^verbatim>\<open>verifyQRData\<close> returns \<^verbatim>\<open>{ valid: true, payload }\<close> with the payload that was issued:
  the same \<^verbatim>\<open>user_id\<close>, \<^verbatim>\<open>email\<close>, \<^verbatim>\<open>name\<close>, \<^verbatim>\<open>access_level\<close>, \<^verbatim>\<open>allowed_areas\<close>, \<^verbatim>\<open>timestamp\<close>,
  \<^verbatim>\<open>expires_at\<close>, \<^verbatim>\<open>device_fingerprint\<close> and \<^verbatim>\<open>version\<close>. The user need not be active.
\<close>

theorem issue_then_verify:
  assumes "t \<noteq> 0"
    and "now1 - t \<le> 24 * 60 * 60 * 1000" and "now2 \<le> t + 60 * 60 * 1000"
    and "roundtrips P
           (JObj [(''data'', JStr (JSON_stringify P (qrPayload P dev t u))),
                  (''signature'',
                   JStr (digestSHA256 P (JSON_stringify P (qrPayload P dev t u) @ secret))),
                  (''timestamp'', JNum t)])"
    and "roundtrips P (qrPayload P dev t u)"
    and "JSON_stringify P (qrPayload P dev t u) \<noteq> []"
    and "digestSHA256 P (JSON_stringify P (qrPayload P dev t u) @ secret) \<noteq> []"
  shows "verifyQRData P now1 now2 (generateSecureQRData P dev t u) =
           accepted (qrPayload P dev t u) \<and>
         qrPayload P dev t u =
           JObj [(''user_id'', JNum (id_user u)), (''email'', JStr (email u)),
                 (''name'', JStr (name u)), (''access_level'', JStr (access_level u)),
                 (''allowed_areas'', allowed_areas u), (''timestamp'', JNum t),
                 (''expires_at'', JNum (t + 3600000)),
                 (''device_fingerprint'', JStr (getDeviceFingerprint P dev)),
                 (''version'', JStr ''2.0'')]"
proof -
  let ?data = "JSON_stringify P (qrPayload P dev t u)"
  let ?sig = "digestSHA256 P (?data @ secret)"
  let ?env = "JObj [(''data'', JStr ?data), (''signature'', JStr ?sig), (''timestamp'', JNum t)]"
  have e: "JSON_parse P (generateSecureQRData P dev t u) = Some ?env"
    using assms(4) by (simp add: roundtrips_def generateSecureQRData_def Let_def)
  have q: "JSON_parse P ?data = Some (qrPayload P dev t u)"
    using assms(5) by (simp add: roundtrips_def)
  have ex: "get_prop (qrPayload P dev t u) ''expires_at'' = Inr (Some (JNum (t + 60 * 60 * 1000)))"
    by (simp add: qrPayload_def)
  have d: "get_prop ?env ''data'' = Inr (Some (JStr ?data))"
    and s: "get_prop ?env ''signature'' = Inr (Some (JStr ?sig))"
    and ts: "get_prop ?env ''timestamp'' = Inr (Some (JNum t))"
    by simp_all
  have tr: "truthy (Some (JStr ?sig))"
    using assms(7) by simp
  have "verifyQRData P now1 now2 (generateSecureQRData P dev t u) = accepted (qrPayload P dev t u)"
    using verify_signed [OF e d assms(6) s tr ts assms(1,2), of now2] assms(3) q
    by (simp add: ex gt_num_def)
  then show ?thesis by (simp add: qrPayload_def)
qed

text \<open>John's token, issued on the example device at 1700000000000 and verified at once.\<close>

theorem issue_then_verify_witness:
  "verifyQRData reference 1700000000000 1700000000000
     (generateSecureQRData reference pixel 1700000000000 john) =
   accepted (qrPayload reference pixel 1700000000000 john)"
proof -
  let ?pl = "qrPayload reference pixel 1700000000000 john"
  have e: "roundtrips reference
      (JObj [(''data'', JStr (JSON_stringify reference ?pl)),
             (''signature'', JStr (digestSHA256 reference (JSON_stringify reference ?pl @ secret))),
             (''timestamp'', JNum 1700000000000)])"
    by code_simp
  have q: "roundtrips reference ?pl"
    by code_simp
  have n1: "JSON_stringify reference ?pl \<noteq> []"
    by code_simp
  have n2: "digestSHA256 reference (JSON_stringify reference ?pl @ secret) \<noteq> []"
    by code_simp
  from issue_then_verify [OF _ _ _ e q n1 n2, of 1700000000000 1700000000000]
  show ?thesis by simp
qed

text \<open>
  The claim as it stands fails at the clock reading 0: the envelope issued then has the
  \<^verbatim>\<open>timestamp\<close> 0, which the format check takes for a missing member.
\<close>

theorem issue_then_verify_counterexample:
  "verifyQRData reference 0 0 (generateSecureQRData reference pixel 0 john) =
     rejected ''Invalid QR format'' \<and>
   verifyQRData reference 0 0 (generateSecureQRData reference pixel 0 john) \<noteq>
     accepted (qrPayload reference pixel 0 john)"
proof -
  have e: "JSON_parse reference (generateSecureQRData reference pixel 0 john) =
      Some (JObj [(''data'', JStr (JSON_stringify reference (qrPayload reference pixel 0 john))),
                  (''signature'',
                   JStr (digestSHA256 reference
                     (JSON_stringify reference (qrPayload reference pixel 0 john) @ secret))),
                  (''timestamp'', JNum 0)])"
    by code_simp
  have "verifyQRData reference 0 0 (generateSecureQRData reference pixel 0 john) =
      rejected ''Invalid QR format''"
    by (simp add: verifyQRData_def verify_envelope [OF e])
  then show ?thesis by (simp add: accepted_def rejected_def)
qed

lemma verifyQRData_try_results:
  assumes "verifyQRData_try P now1 now2 qrData = Inr r"
  shows "(\<exists>p. r = accepted p) \<or> r = rejected ''Invalid QR format'' \<or>
         r = rejected ''QR code expired'' \<or> r = rejected ''QR code tampered''"
  using assms unfolding verifyQRData_try_def Let_def
  by (auto simp: andThen_Inr_iff split: option.splits if_splits)

text \<open>
  C5. For every text and every reading of the clock, \<^verbatim>\<open>verifyQRData\<close> returns a result (a
  throw of the body of its \<^verbatim>\<open>try\<close> block is caught): either \<^verbatim>\<open>{ valid: true, payload }\<close>, or
  \<^verbatim>\<open>{ valid: false, reason }\<close> with one of the four reasons. A text on which \<^verbatim>\<open>JSON.parse\<close>
  throws gives the reason \<^verbatim>\<open>Invalid QR data\<close>, and so does an envelope whose checks have
  passed and on whose data \<^verbatim>\<open>JSON.parse\<close> throws.
\<close>

theorem verifyQRData_always_tagged:
  "((\<exists>p. verifyQRData P now1 now2 qrData = accepted p) \<or>
    verifyQRData P now1 now2 qrData = rejected ''Invalid QR format'' \<or>
    verifyQRData P now1 now2 qrData = rejected ''QR code expired'' \<or>
    verifyQRData P now1 now2 qrData = rejected ''QR code tampered'' \<or>
    verifyQRData P now1 now2 qrData = rejected ''Invalid QR data'') \<and>
   (JSON_parse P qrData = None \<longrightarrow>
      verifyQRData P now1 now2 qrData = rejected ''Invalid QR data'') \<and>
   (JSON_parse P qrData = Some parsed \<and>
    get_prop parsed ''data'' = Inr (Some (JStr d)) \<and> d \<noteq> [] \<and>
    get_prop parsed ''signature'' = Inr (Some (JStr (digestSHA256 P (d @ secret)))) \<and>
    digestSHA256 P (d @ secret) \<noteq> [] \<and>
    get_prop parsed ''timestamp'' = Inr (Some (JNum ts)) \<and> ts \<noteq> 0 \<and>
    now1 - ts \<le> 24 * 60 * 60 * 1000 \<and>
    JSON_parse P d = None \<longrightarrow>
      verifyQRData P now1 now2 qrData = rejected ''Invalid QR data'')"
proof (intro conjI impI)
  show "(\<exists>p. verifyQRData P now1 now2 qrData = accepted p) \<or>
    verifyQRData P now1 now2 qrData = rejected ''Invalid QR format'' \<or>
    verifyQRData P now1 now2 qrData = rejected ''QR code expired'' \<or>
    verifyQRData P now1 now2 qrData = rejected ''QR code tampered'' \<or>
    verifyQRData P now1 now2 qrData = rejected ''Invalid QR data''"
  proof (cases "verifyQRData_try P now1 now2 qrData")
    case (Inl e)
    then show ?thesis by (simp add: verifyQRData_def)
  next
    case (Inr r)
    from verifyQRData_try_results [OF Inr] Inr show ?thesis
      by (auto simp: verifyQRData_def)
  qed
next
  assume "JSON_parse P qrData = None"
  then show "verifyQRData P now1 now2 qrData = rejected ''Invalid QR data''"
    by (simp add: verifyQRData_def verifyQRData_try_def)
next
  assume a: "JSON_parse P qrData = Some parsed \<and>
    get_prop parsed ''data'' = Inr (Some (JStr d)) \<and> d \<noteq> [] \<and>
    get_prop parsed ''signature'' = Inr (Some (JStr (digestSHA256 P (d @ secret)))) \<and>
    digestSHA256 P (d @ secret) \<noteq> [] \<and>
    get_prop parsed ''timestamp'' = Inr (Some (JNum ts)) \<and> ts \<noteq> 0 \<and>
    now1 - ts \<le> 24 * 60 * 60 * 1000 \<and>
    JSON_parse P d = None"
  then have "truthy (Some (JStr (digestSHA256 P (d @ secret))))" by simp
  with a verify_signed [of P qrData parsed d "Some (JStr (digestSHA256 P (d @ secret)))" ts now1 now2]
  show "verifyQRData P now1 now2 qrData = rejected ''Invalid QR data''"
    by simp
qed

text \<open>
  A text that is no JSON, and a signed envelope whose data is no JSON, read half a second
  after it was issued.
\<close>

theorem verifyQRData_always_tagged_witness:
  "JSON_parse reference ''ticket 42'' = None \<and>
   verifyQRData reference 1700000000500 1700000000500 ''ticket 42'' =
     rejected ''Invalid QR data'' \<and>
   verifyQRData reference 1700000000500 1700000000500 (signed_envelope ''ticket 42'' 1700000000000) =
     rejected ''Invalid QR data''"
proof -
  let ?d = "''ticket 42''"
  have n: "JSON_parse reference ?d = None" by code_simp
  have p: "JSON_parse reference (signed_envelope ?d 1700000000000) =
      Some (JObj [(''data'', JStr ?d), (''signature'', JStr (digestSHA256 reference (?d @ secret))),
                  (''timestamp'', JNum 1700000000000)])"
    by code_simp
  have ne: "digestSHA256 reference (?d @ secret) \<noteq> []" by code_simp
  have 1: "verifyQRData reference 1700000000500 1700000000500 ?d = rejected ''Invalid QR data''"
    using n verifyQRData_always_tagged [of reference 1700000000500 1700000000500 ?d]
    by blast
  have 2: "verifyQRData reference 1700000000500 1700000000500
      (signed_envelope ?d 1700000000000) = rejected ''Invalid QR data''"
    using n p ne verifyQRData_always_tagged
      [of reference 1700000000500 1700000000500 "signed_envelope ?d 1700000000000"
          "JObj [(''data'', JStr ?d), (''signature'', JStr (digestSHA256 reference (?d @ secret))),
                 (''timestamp'', JNum 1700000000000)]" ?d 1700000000000]
    by simp
  from n 1 2 show ?thesis by simp
qed

section \<open>Properties of the seed obfuscation\<close>

text \<open>
  \<^verbatim>\<open>split\<close> with a separator that is not empty returns at least one piece, so the first
  piece that \<^verbatim>\<open>decryptData\<close> takes twice is there.
\<close>

lemma split_from_not_Nil: "split_from sep acc s \<noteq> []"
  by (induction sep acc s rule: split_from.induct) simp_all

lemma split_not_Nil: "sep \<noteq> [] \<Longrightarrow> split s sep \<noteq> []"
  by (simp add: split_def split_from_not_Nil)

text \<open>Where \<^verbatim>\<open>split\<close> cuts: at the first place where the separator is a prefix.\<close>

lemma split_from_at_sep:
  assumes "sep \<noteq> []"
    and "\<forall>k<length s. \<not> prefix sep (drop k (s @ sep @ rest))"
  shows "split_from sep acc (s @ sep @ rest) = (rev acc @ s) # split_from sep [] rest"
  using assms(2)
proof (induction s arbitrary: acc)
  case Nil
  from assms(1) obtain x xs where sep: "sep = x # xs" by (cases sep) auto
  show ?case by (simp add: sep)
next
  case (Cons c s)
  from assms(1) obtain x xs where sep: "sep = x # xs" by (cases sep) auto
  from Cons.prems have no: "\<not> prefix sep ((c # s) @ sep @ rest)"
    by (metis drop0 length_greater_0_conv list.distinct(1))
  have "\<forall>k<length s. \<not> prefix sep (drop k (s @ sep @ rest))"
  proof (intro allI impI)
    fix k assume "k < length s"
    then have "Suc k < length (c # s)" by simp
    with Cons.prems have "\<not> prefix sep (drop (Suc k) ((c # s) @ sep @ rest))" by blast
    then show "\<not> prefix sep (drop k (s @ sep @ rest))" by simp
  qed
  from Cons.IH [OF this, of "c # acc"] no show ?case
    by (simp add: sep)
qed

lemma split_from_none:
  assumes "sep \<noteq> []"
    and "\<forall>k<length s. \<not> prefix sep (drop k s)"
  shows "split_from sep acc s = [rev acc @ s]"
  using assms(2)
proof (induction s arbitrary: acc)
  case Nil
  show ?case by simp
next
  case (Cons c s)
  from assms(1) obtain x xs where sep: "sep = x # xs" by (cases sep) auto
  from Cons.prems have no: "\<not> prefix sep (c # s)"
    by (metis drop0 length_greater_0_conv list.distinct(1))
  have "\<forall>k<length s. \<not> prefix sep (drop k s)"
  proof (intro allI impI)
    fix k assume "k < length s"
    then have "Suc k < length (c # s)" by simp
    with Cons.prems have "\<not> prefix sep (drop (Suc k) (c # s))" by blast
    then show "\<not> prefix sep (drop k s)" by simp
  qed
  from Cons.IH [OF this, of "c # acc"] no show ?case
    by (simp add: sep)
qed

lemma no_colon_no_sep:
  assumes "CHR '':'' \<notin> set s" and "k < length s"
  shows "\<not> prefix (CHR '':'' # xs) (drop k (s @ r))"
proof
  assume p: "prefix (CHR '':'' # xs) (drop k (s @ r))"
  from assms(2) have "drop k (s @ r) = s ! k # drop (Suc k) (s @ r)"
    by (simp add: Cons_nth_drop_Suc nth_append)
  with p have "s ! k = CHR '':''" by simp
  with assms show False by (metis nth_mem)
qed

text \<open>Two texts without a colon, joined by two colons, split into the two.\<close>

lemma split_two_pieces:
  assumes "CHR '':'' \<notin> set a" and "CHR '':'' \<notin> set b"
  shows "split (a @ ''::'' @ b) ''::'' = [a, b]"
proof -
  have 1: "\<forall>k<length a. \<not> prefix ''::'' (drop k (a @ ''::'' @ b))"
    using no_colon_no_sep [OF assms(1)] by blast
  have 2: "\<forall>k<length b. \<not> prefix ''::'' (drop k b)"
    using no_colon_no_sep [OF assms(2), where r = "[]"] by simp
  have "split_from ''::'' [] (a @ ''::'' @ b) = a # split_from ''::'' [] b"
    using split_from_at_sep [OF _ 1, of "[]"] by simp
  also have "split_from ''::'' [] b = [b]"
    using split_from_none [OF _ 2, of "[]"] by simp
  finally show ?thesis by (simp add: split_def)
qed

text \<open>
  A marker whose key has no colon and is not empty cannot begin inside a text that does not
  contain it and run over into the marker appended to the text.
\<close>

lemma marker_first_at_end:
  assumes ne: "key \<noteq> []" and nc: "CHR '':'' \<notin> set key"
    and ns: "\<not> sublist (''::'' @ key) s"
    and k: "k < length s"
  shows "\<not> prefix (''::'' @ key) (drop k (s @ ''::'' @ key))"
proof
  define sep where "sep = ''::'' @ key"
  define u where "u = drop k s"
  define m where "m = length u"
  have len: "length sep = length key + 2" by (simp add: sep_def)
  have s0: "sep ! 0 = CHR '':''" and s1: "sep ! 1 = CHR '':''" by (simp_all add: sep_def)
  have sk: "sep ! j = key ! (j - 2)" if "2 \<le> j" for j
    using that by (auto simp: sep_def nth_Cons split: nat.splits)
  assume "prefix (''::'' @ key) (drop k (s @ ''::'' @ key))"
  with k have p: "prefix sep (u @ sep)" by (simp add: sep_def u_def)
  from k have m: "0 < m" by (simp add: m_def u_def)
  show False
  proof (cases "length sep \<le> m")
    case True
    with p have "prefix sep u"
      unfolding m_def by (metis prefix_length_prefix prefixI)
    then obtain r where "u = sep @ r" by (auto simp: prefix_def)
    then have "s = take k s @ sep @ r"
      unfolding u_def by (metis append_take_drop_id)
    then have "sublist sep s" by (metis sublist_appendI)
    with ns show False by (simp add: sep_def)
  next
    case False
    then have lt: "m < length sep" by simp
    from p obtain r where eq: "u @ sep = sep @ r" by (auto simp: prefix_def)
    have shift: "sep ! i = sep ! (i - m)" if "m \<le> i" "i < length sep" for i
    proof -
      have "sep ! i = (sep @ r) ! i" using that by (simp add: nth_append)
      also have "\<dots> = (u @ sep) ! i" by (simp only: eq)
      also have "\<dots> = sep ! (i - m)" using that by (simp add: nth_append m_def)
      finally show ?thesis .
    qed
    show False
    proof (cases "m = 1")
      case True
      from ne have "2 < length sep" by (simp add: len)
      with shift [of 2] True s1 have "sep ! 2 = CHR '':''" by simp
      with sk [of 2] have "key ! 0 = CHR '':''" by simp
      moreover from ne have "key ! 0 \<in> set key" by simp
      ultimately show False using nc by simp
    next
      case False
      with m have m2: "2 \<le> m" by simp
      from shift [of m] lt have "sep ! m = CHR '':''" by (simp add: s0)
      moreover from m2 have "sep ! m = key ! (m - 2)" by (rule sk)
      moreover from m2 lt have "key ! (m - 2) \<in> set key"
        by (intro nth_mem) (simp add: len)
      ultimately show False using nc by simp
    qed
  qed
qed

text \<open>
  C6, as amended. Let \<open>key\<close> be the first 32 characters of the digest that \<^verbatim>\<open>encryptData\<close>
  derives from the salt. If the text \<open>s\<close> does not contain the marker (two colons and the
  key), then \<^verbatim>\<open>decryptData\<close> applied to the result of \<^verbatim>\<open>encryptData\<close> returns \<open>s\<close>, on a
  platform where: base64 texts have no colon and \<^verbatim>\<open>atob\<close> gives back what \<^verbatim>\<open>btoa\<close> encoded;
  the UTF-8 decoding gives back what the encoding encoded (\<open>s\<close> is well-formed); and the
  digest is not empty and has no colon (it is written in hexadecimal digits).
\<close>

theorem obfuscation_roundtrip:
  assumes "btoa P (fromCharCode salt) = Some saltBase64"
    and "CHR '':'' \<notin> set saltBase64"
    and "key = substring_0_32 (digestSHA256 P (''demo_encryption_key_2024'' @ saltBase64))"
    and "key \<noteq> []" and "CHR '':'' \<notin> set key"
    and "utf8_encode P (s @ ''::'' @ key) = Some bytes"
    and "btoa P bytes = Some encrypted"
    and "CHR '':'' \<notin> set encrypted"
    and "atob P encrypted = Some bytes"
    and "utf8_decode P bytes = Some (s @ ''::'' @ key)"
    and "\<not> sublist (''::'' @ key) s"
  shows "andThen (encryptData P salt s) (decryptData P) = Inr s"
proof -
  have enc: "encryptData P salt s = Inr (saltBase64 @ ''::'' @ encrypted)"
    using assms(1,3,6,7) by (simp add: encryptData_def Let_def)
  have parts: "split (saltBase64 @ ''::'' @ encrypted) ''::'' = [saltBase64, encrypted]"
    using assms(2,8) by (rule split_two_pieces)
  have first: "\<forall>k<length s. \<not> prefix (''::'' @ key) (drop k (s @ (''::'' @ key) @ []))"
    using marker_first_at_end [OF assms(4,5,11)] by simp
  have "split_from (''::'' @ key) [] (s @ (''::'' @ key) @ []) =
      ([] @ s) # split_from (''::'' @ key) [] []"
    using split_from_at_sep [OF _ first, of "[]"] by simp
  then have hd: "hd (split (s @ ''::'' @ key) (''::'' @ key)) = s"
    by (simp add: split_def)
  have "decryptData P (saltBase64 @ ''::'' @ encrypted) = Inr s"
    unfolding decryptData_def parts Let_def using assms(3,9,10) hd by simp
  with enc show ?thesis by simp
qed

text \<open>A piece of the seed list under the example salt.\<close>

theorem obfuscation_roundtrip_witness:
  "\<not> sublist (''::'' @ key16) ''[{\"email\":\"john.athlete@sports.com\"}]'' \<and>
   andThen (encryptData reference salt16 ''[{\"email\":\"john.athlete@sports.com\"}]'')
     (decryptData reference) =
   Inr ''[{\"email\":\"john.athlete@sports.com\"}]''"
proof -
  let ?s = "''[{\"email\":\"john.athlete@sports.com\"}]''"
  let ?bytes = "?s @ ''::'' @ key16"
  let ?enc = "b64_encode (map of_char ?bytes)"
  have 1: "btoa reference (fromCharCode salt16) = Some salt16_base64" by code_simp
  have 2: "CHR '':'' \<notin> set salt16_base64" by code_simp
  have 3: "key16 = substring_0_32
      (digestSHA256 reference (''demo_encryption_key_2024'' @ salt16_base64))"
    by (simp add: key16_def)
  have 4: "key16 \<noteq> []" by code_simp
  have 5: "CHR '':'' \<notin> set key16" by code_simp
  have 6: "utf8_encode reference ?bytes = Some ?bytes" by (simp add: reference_def)
  have 7: "btoa reference ?bytes = Some ?enc" by (simp add: reference_def)
  have 8: "CHR '':'' \<notin> set ?enc" by code_simp
  have 9: "atob reference ?enc = Some ?bytes" by code_simp
  have 10: "utf8_decode reference ?bytes = Some ?bytes" by code_simp
  have 11: "\<not> sublist (''::'' @ key16) ?s" by code_simp
  from 11 obfuscation_roundtrip [OF 1 2 3 4 5 6 7 8 9 10 11] show ?thesis
    by blast
qed

text \<open>
  The claim as it stands fails on a text that contains the marker of the salt drawn:
  \<^verbatim>\<open>decryptData\<close> returns what stands before the first marker. The text is well-formed
  UTF-8 (it is ASCII).
\<close>

theorem obfuscation_counterexample:
  "valid_utf8 (map of_char (''seed'' @ ''::'' @ key16 @ ''tail'')) \<and>
   andThen (encryptData reference salt16 (''seed'' @ ''::'' @ key16 @ ''tail''))
     (decryptData reference) = Inr ''seed'' \<and>
   ''seed'' \<noteq> ''seed'' @ ''::'' @ key16 @ ''tail''"
proof -
  have 1: "valid_utf8 (map of_char (''seed'' @ ''::'' @ key16 @ ''tail''))"
    by code_simp
  have 2: "andThen (encryptData reference salt16 (''seed'' @ ''::'' @ key16 @ ''tail''))
      (decryptData reference) = Inr ''seed''"
    by code_simp
  from 1 2 show ?thesis by simp
qed

end
